theory Spec2Isabelle
  imports Main
begin

section \<open>The terminal server of src/terminal-server.ts\<close>

text \<open>
  The server keeps a module-level table \<^verbatim>\<open>sessions\<close> from process ids to
  session objects and reacts to HTTP requests, WebSocket events and the events of
  the pseudo-terminal processes it spawned. Every handler of the source is one
  function below, taking the state of the server and returning the new state, or
  the exception the handler throws. The objects that handlers and closures share
  (the node-pty process, the headless xterm with its serialize addon, the
  WebSocket) live in explicit stores, addressed by naturals, because closures keep
  references to them after the table has changed.

  What the libraries do is not in the sources. Where a handler depends on it, the
  outcome of the library call is an argument of the handler, chosen by the
  environment like the request itself: whether \<^verbatim>\<open>pty.spawn\<close>, \<^verbatim>\<open>new Terminal\<close>
  and the two \<^verbatim>\<open>resize\<close> return or throw, what \<^verbatim>\<open>serialize()\<close> returns, and the
  string a chunk of output becomes when it is appended to a string.

  A \<open>string\<close> stands for a JavaScript string by its UTF-8 bytes, and for a chunk
  of output by its bytes.
\<close>

subsection \<open>Numbers and strings\<close>

text \<open>
  The numbers \<^verbatim>\<open>parseInt\<close> returns: NaN, an integer that is a double (\<open>Num 0\<close>
  is both zeros, which the server does not tell apart), or an infinity.
\<close>

datatype number = NaN | Num int | PlusInfinity | MinusInfinity

definition is_digit :: "char \<Rightarrow> bool" where
  "is_digit c = (48 \<le> (of_char c :: nat) \<and> (of_char c :: nat) \<le> 57)"

definition digit_value :: "char \<Rightarrow> nat" where
  "digit_value c = of_char c - 48"

text \<open>
  The number of bytes of the white space character or line terminator a string
  starts with, 0 when it starts with none. These are the characters
  \<^verbatim>\<open>parseInt\<close> trims: U+0009 to U+000D, U+0020, U+00A0, U+1680, U+2000 to U+200A,
  U+2028, U+2029, U+202F, U+205F, U+3000 and U+FEFF, here in UTF-8.
\<close>

definition white_len :: "string \<Rightarrow> nat" where
  "white_len s =
     (case map of_char (take 3 s) of
        [] \<Rightarrow> 0
      | b1 # bs \<Rightarrow>
          if (b1 :: nat) = 0x20 \<or> (9 \<le> b1 \<and> b1 \<le> 13) then 1
          else if b1 = 0xC2 \<and> take 1 bs = [0xA0] then 2
          else if b1 = 0xE1 \<and> bs = [0x9A, 0x80] then 3
          else if b1 = 0xE2 \<and> take 1 bs = [0x80] \<and>
                  (case drop 1 bs of
                     [b3] \<Rightarrow> (0x80 \<le> b3 \<and> b3 \<le> 0x8A) \<or> b3 = 0xA8 \<or> b3 = 0xA9 \<or> b3 = 0xAF
                   | _ \<Rightarrow> False) then 3
          else if b1 = 0xE2 \<and> bs = [0x81, 0x9F] then 3
          else if b1 = 0xE3 \<and> bs = [0x80, 0x80] then 3
          else if b1 = 0xEF \<and> bs = [0xBB, 0xBF] then 3
          else 0)"

function skip_white :: "string \<Rightarrow> string" where
  "skip_white s = (if white_len s = 0 then s else skip_white (drop (white_len s) s))"
  by pat_completeness auto
termination
proof (relation "measure length")
  show "wf (measure length)" by simp
next
  fix s :: string
  assume a: "white_len s \<noteq> 0"
  then have "s \<noteq> []" by (auto simp: white_len_def)
  with a show "(drop (white_len s) s, s) \<in> measure length" by simp
qed

declare skip_white.simps [simp del]

text \<open>
  The double nearest to a natural number, ties to the even mantissa; \<open>None\<close> when
  the number is too large for a double.
\<close>

fun bit_length :: "nat \<Rightarrow> nat" where
  "bit_length n = (if n = 0 then 0 else Suc (bit_length (n div 2)))"

declare bit_length.simps [simp del]

definition round_to_double :: "nat \<Rightarrow> nat option" where
  "round_to_double n =
     (if n < 2 ^ 53 then Some n
      else
        (let sh = bit_length n - 53;
             q = n div 2 ^ sh;
             r = n mod 2 ^ sh;
             half = 2 ^ (sh - 1);
             q' = (if half < r \<or> (r = half \<and> odd q) then Suc q else q);
             v = q' * 2 ^ sh
         in if v < 2 ^ 1024 then Some v else None))"

text \<open>
  \<^verbatim>\<open>parseInt(s, 10)\<close>: leading white space is skipped, one sign is read, then the
  longest run of decimal digits; no digit gives NaN, and the value of the digits
  is rounded to a double.
\<close>

definition parseInt :: "string \<Rightarrow> number" where
  "parseInt s =
     (let t = skip_white s;
          neg = (case t of [] \<Rightarrow> False | c # _ \<Rightarrow> c = CHR ''-'');
          u = (case t of [] \<Rightarrow> []
               | c # r \<Rightarrow> if c = CHR ''-'' \<or> c = CHR ''+'' then r else t);
          ds = takeWhile is_digit u
      in if ds = [] then NaN
         else (case round_to_double (foldl (\<lambda>acc c. 10 * acc + digit_value c) 0 ds) of
                 None \<Rightarrow> if neg then MinusInfinity else PlusInfinity
               | Some v \<Rightarrow> Num (if neg then - int v else int v)))"

text \<open>
  \<^verbatim>\<open>parseInt\<close> of a query parameter of the resize request, which is not tested to
  be a string: \<open>None\<close> is the absent parameter (\<^verbatim>\<open>undefined\<close> gives NaN), and
  \<open>Some s\<close> a parameter that \<^verbatim>\<open>parseInt\<close> converts to the string \<open>s\<close>.
\<close>

definition parseIntQ :: "string option \<Rightarrow> number" where
  "parseIntQ q = (case q of None \<Rightarrow> NaN | Some s \<Rightarrow> parseInt s)"

text \<open>\<^verbatim>\<open>n || d\<close> on numbers: NaN and zero are falsy, every other number is kept.\<close>

definition num_or :: "number \<Rightarrow> int \<Rightarrow> number" where
  "num_or n d =
     (case n of NaN \<Rightarrow> Num d
      | Num v \<Rightarrow> if v = 0 then Num d else Num v
      | PlusInfinity \<Rightarrow> PlusInfinity
      | MinusInfinity \<Rightarrow> MinusInfinity)"

fun nat_digits :: "nat \<Rightarrow> string" where
  "nat_digits n =
     (if n < 10 then [char_of (48 + n)]
      else nat_digits (n div 10) @ [char_of (48 + n mod 10)])"

declare nat_digits.simps [simp del]

text \<open>
  \<^verbatim>\<open>Number.prototype.toString\<close> on an integer below \<^verbatim>\<open>1e21\<close> in absolute value,
  as every process id is.
\<close>

definition toString :: "int \<Rightarrow> string" where
  "toString i = (if i < 0 then CHR ''-'' # nat_digits (nat (- i)) else nat_digits (nat i))"

subsection \<open>Objects\<close>

text \<open>
  A listener registered with \<^verbatim>\<open>term.onData\<close>. \<open>Buffer t\<close> is the closure of lines
  75-77 (it appends to \<^verbatim>\<open>sessions[term.pid].terminalData\<close>, \<open>t\<close> the captured process);
  \<open>Forward x w\<close> is the closure of lines 128-139 (it writes to the captured xterm
  \<open>x\<close> and sends on the captured socket \<open>w\<close>).
\<close>

datatype listener = Buffer nat | Forward nat nat

text \<open>
  The closure given to \<^verbatim>\<open>term.onExit\<close> in lines 182-187: it captures the xterm and
  the pid of the request.
\<close>

datatype exit_listener = ExitL nat int

text \<open>
  The node-pty process. Its event emitters keep their listeners in registration
  order; a registration is paired with a fresh identity so that its disposable
  can remove exactly it. \<open>pty_cols_arg\<close> and \<open>pty_rows_arg\<close> are the size
  \<^verbatim>\<open>pty.spawn\<close> or \<^verbatim>\<open>term.resize\<close> was last given, and \<open>pty_input\<close> is what
  \<^verbatim>\<open>term.write\<close> was given. The calls of \<^verbatim>\<open>write\<close> and \<^verbatim>\<open>kill\<close> are recorded
  and are taken not to throw.
\<close>

record pty =
  pty_pid :: int
  pty_cols_arg :: number
  pty_rows_arg :: number
  onData_listeners :: "(nat \<times> listener) list"
  onExit_listeners :: "exit_listener list"
  pty_input :: "string list"
  exited :: bool

text \<open>
  The headless xterm with the serialize addon loaded into it. \<open>xterm_cols_arg\<close>
  and \<open>xterm_rows_arg\<close> are the size the constructor or \<^verbatim>\<open>xterm.resize\<close> was last
  given (the library may clamp it), and \<open>xwritten\<close> is the byte stream written to
  it so far, a string counting by its UTF-8 bytes.
\<close>

record xterm =
  xterm_cols_arg :: number
  xterm_rows_arg :: number
  xwritten :: string
  xdisposed :: nat
  addon_disposed :: nat

text \<open>
  A WebSocket: whether it is open, what its \<^verbatim>\<open>message\<close> and \<^verbatim>\<open>close\<close> handlers
  captured (the pid, the process, the xterm with its addon), and the messages sent
  on it, in order.
\<close>

record sock =
  ws_open :: bool
  ws_pid :: int
  ws_term :: nat
  ws_xterm :: nat
  received :: "string list"

text \<open>
  Modelled from the spec: the declaration of the \<^verbatim>\<open>Session\<close> type
  (\<^verbatim>\<open>../types\<close>) is not among the sources. The fields are the ones the handlers
  create, read and write in lines 68-77 and 128: \<^verbatim>\<open>term\<close> and \<^verbatim>\<open>xterm\<close> (the spec's
  Process Handle and Screen Model, held by reference), \<^verbatim>\<open>terminalData\<close> (the
  outputBuffer) and the two optional disposables \<^verbatim>\<open>temporaryDisposable\<close> and
  \<^verbatim>\<open>dataHandler\<close> (the subscriptions to the process's output). The field
  \<^verbatim>\<open>serializeAddon\<close> is the addon loaded into \<^verbatim>\<open>xterm\<close> and is reached through
  \<open>xterm_ref\<close>. A disposable is the emitter it belongs to and the identity of
  the registration.
\<close>

record session =
  term_ref :: nat
  xterm_ref :: nat
  terminalData :: string
  temporaryDisposable :: "(nat \<times> nat) option"
  dataHandler :: "(nat \<times> nat) option"

text \<open>What the server does to the outside, in order.\<close>

datatype effect =
    XWrite nat string
  | WsSend nat string
  | Kill nat
  | XDispose nat
  | Closed int
  | AddonDispose nat

datatype fault = UnexpectedQueryArgs | SpawnError | TerminalError | ResizeError | TypeError | NotOpen

record state =
  sessions :: "int \<Rightarrow> session option"
  ptys :: "nat \<Rightarrow> pty"
  xterms :: "nat \<Rightarrow> xterm"
  next_obj :: nat
  socks :: "nat \<Rightarrow> sock"
  next_ws :: nat
  next_hid :: nat
  effects :: "effect list"

definition init :: state where
  "init = \<lparr> sessions = (\<lambda>_. None),
            ptys = (\<lambda>_. \<lparr> pty_pid = 0, pty_cols_arg = NaN, pty_rows_arg = NaN,
                           onData_listeners = [], onExit_listeners = [],
                           pty_input = [], exited = False \<rparr>),
            xterms = (\<lambda>_. \<lparr> xterm_cols_arg = NaN, xterm_rows_arg = NaN, xwritten = [],
                             xdisposed = 0, addon_disposed = 0 \<rparr>),
            next_obj = 0,
            socks = (\<lambda>_. \<lparr> ws_open = False, ws_pid = 0, ws_term = 0, ws_xterm = 0,
                            received = [] \<rparr>),
            next_ws = 0,
            next_hid = 0,
            effects = [] \<rparr>"

subsection \<open>Primitive operations on the objects\<close>

text \<open>\<^verbatim>\<open>sessions[pid]\<close> for a number: only an integer names an entry.\<close>

definition session_at :: "state \<Rightarrow> number \<Rightarrow> session option" where
  "session_at st pid = (case pid of Num p \<Rightarrow> sessions st p | _ \<Rightarrow> None)"

text \<open>
  An assignment to a field of \<^verbatim>\<open>sessions[p]\<close>. Every use below follows a test
  that the entry exists.
\<close>

definition upd_session :: "int \<Rightarrow> (session \<Rightarrow> session) \<Rightarrow> state \<Rightarrow> state" where
  "upd_session p f st =
     (case sessions st p of None \<Rightarrow> st
      | Some s \<Rightarrow> st\<lparr> sessions := (sessions st)(p := Some (f s)) \<rparr>)"

text \<open>\<^verbatim>\<open>term.onData(l)\<close>: registers \<open>l\<close> last and returns its disposable.\<close>

definition onData :: "nat \<Rightarrow> listener \<Rightarrow> state \<Rightarrow> (nat \<times> nat) \<times> state" where
  "onData t l st =
     ((t, next_hid st),
      st\<lparr> ptys := (ptys st)(t := (ptys st t)\<lparr> onData_listeners :=
                      onData_listeners (ptys st t) @ [(next_hid st, l)] \<rparr>),
          next_hid := Suc (next_hid st) \<rparr>)"

text \<open>\<^verbatim>\<open>d.dispose()\<close>: removes the registration from its emitter.\<close>

definition dispose :: "nat \<times> nat \<Rightarrow> state \<Rightarrow> state" where
  "dispose d st =
     st\<lparr> ptys := (ptys st)(fst d := (ptys st (fst d))\<lparr> onData_listeners :=
                     filter (\<lambda>e. fst e \<noteq> snd d) (onData_listeners (ptys st (fst d))) \<rparr>) \<rparr>"

definition onExit :: "nat \<Rightarrow> exit_listener \<Rightarrow> state \<Rightarrow> state" where
  "onExit t l st =
     st\<lparr> ptys := (ptys st)(t := (ptys st t)\<lparr> onExit_listeners :=
                     onExit_listeners (ptys st t) @ [l] \<rparr>) \<rparr>"

definition xterm_write :: "nat \<Rightarrow> string \<Rightarrow> state \<Rightarrow> state" where
  "xterm_write x d st =
     st\<lparr> xterms := (xterms st)(x := (xterms st x)\<lparr> xwritten := xwritten (xterms st x) @ d \<rparr>),
         effects := effects st @ [XWrite x d] \<rparr>"

text \<open>\<^verbatim>\<open>ws.send(d)\<close>: throws when the socket is not open.\<close>

definition ws_send :: "nat \<Rightarrow> string \<Rightarrow> state \<Rightarrow> state option" where
  "ws_send w d st =
     (if ws_open (socks st w)
      then Some (st\<lparr> socks := (socks st)(w := (socks st w)\<lparr> received :=
                        received (socks st w) @ [d] \<rparr>),
                    effects := effects st @ [WsSend w d] \<rparr>)
      else None)"

subsection \<open>The handlers\<close>

text \<open>
  \<^verbatim>\<open>serializeAddon.serialize()\<close> belongs to the xterm library. The handlers take
  it as a parameter \<open>ser\<close>, a function of the state of the xterm the addon is
  loaded into; nothing is assumed about it.
\<close>

type_synonym serializer = "xterm \<Rightarrow> string"

text \<open>
  \<^verbatim>\<open>POST /terminals\<close> (lines 31-81). \<open>cols\<close> and \<open>rows\<close> are the query
  parameters, \<open>None\<close> when they are not strings; \<open>spawned\<close> is the pid of the
  process \<^verbatim>\<open>pty.spawn\<close> created, \<open>None\<close> when it throws; \<open>made\<close> tells whether
  \<^verbatim>\<open>new Terminal\<close> returned (it throws on sizes it refuses). The result holds the
  body of the response.
\<close>

definition post_terminals ::
  "string option \<Rightarrow> string option \<Rightarrow> int option \<Rightarrow> bool \<Rightarrow> state
     \<Rightarrow> fault + (string \<times> state)" where
  "post_terminals cols rows spawned made st =
     (case cols of None \<Rightarrow> Inl UnexpectedQueryArgs
      | Some c \<Rightarrow>
     (case rows of None \<Rightarrow> Inl UnexpectedQueryArgs
      | Some r \<Rightarrow>
     (let colsInt = parseInt c; rowsInt = parseInt r in
      case spawned of None \<Rightarrow> Inl SpawnError
      | Some pid \<Rightarrow>
     (if made then
       (let a = next_obj st;
            st1 = st\<lparr>
              ptys := (ptys st)(a :=
                \<lparr> pty_pid = pid, pty_cols_arg = num_or colsInt 80,
                  pty_rows_arg = num_or rowsInt 24, onData_listeners = [],
                  onExit_listeners = [], pty_input = [], exited = False \<rparr>),
              xterms := (xterms st)(a :=
                \<lparr> xterm_cols_arg = num_or colsInt 80, xterm_rows_arg = num_or rowsInt 24,
                  xwritten = [], xdisposed = 0, addon_disposed = 0 \<rparr>),
              next_obj := Suc a,
              sessions := (sessions st)(pid :=
                Some \<lparr> term_ref = a, xterm_ref = a, terminalData = [],
                       temporaryDisposable = None, dataHandler = None \<rparr>) \<rparr>;
            r1 = onData a (Buffer a) st1
        in Inr (toString pid,
                upd_session pid (\<lambda>s. s\<lparr> temporaryDisposable := Some (fst r1) \<rparr>) (snd r1)))
      else Inl TerminalError))))"

text \<open>
  \<^verbatim>\<open>POST /terminals/:pid/size\<close> (lines 83-95). Destructuring \<^verbatim>\<open>sessions[pid]\<close>
  throws a TypeError when the table has no such entry. After that the handler
  calls \<^verbatim>\<open>term.resize\<close> and then \<^verbatim>\<open>xterm.resize\<close>; \<open>out\<close> tells which of the two,
  if any, throws.
\<close>

datatype resize_outcome = Resized | TermResizeThrows | XtermResizeThrows

definition post_size ::
  "string \<Rightarrow> string option \<Rightarrow> string option \<Rightarrow> resize_outcome \<Rightarrow> state
     \<Rightarrow> fault + (string \<times> state)" where
  "post_size pid_s cols rows out st =
     (let pid = parseInt pid_s; colsInt = parseIntQ cols; rowsInt = parseIntQ rows in
      case session_at st pid of None \<Rightarrow> Inl TypeError
      | Some s \<Rightarrow>
     (case out of
        TermResizeThrows \<Rightarrow> Inl ResizeError
      | XtermResizeThrows \<Rightarrow> Inl ResizeError
      | Resized \<Rightarrow>
          Inr ([], st\<lparr>
            ptys := (ptys st)(term_ref s :=
              (ptys st (term_ref s))\<lparr> pty_cols_arg := colsInt, pty_rows_arg := rowsInt \<rparr>),
            xterms := (xterms st)(xterm_ref s :=
              (xterms st (xterm_ref s))\<lparr> xterm_cols_arg := colsInt,
                                         xterm_rows_arg := rowsInt \<rparr>) \<rparr>)))"

text \<open>
  The \<^verbatim>\<open>connection\<close> handler of the WebSocket server (lines 113-156), called with
  the pid parsed from the path. The new socket gets the next address. The
  \<^verbatim>\<open>message\<close> and \<^verbatim>\<open>close\<close> handlers it installs are \<open>ws_message\<close> and
  \<open>ws_close\<close> below, reading what they captured from the socket's record.
  The local \<^verbatim>\<open>terminalData\<close> of line 116 and \<^verbatim>\<open>sessions[pid].terminalData\<close> of
  lines 123 and 126 are the same string, since nothing assigns it in between.
\<close>

definition ws_connection :: "number \<Rightarrow> state \<Rightarrow> fault + state" where
  "ws_connection pid st =
     (case session_at st pid of None \<Rightarrow> Inl TypeError
      | Some s \<Rightarrow>
     (case pid of Num p \<Rightarrow>
     (let w = next_ws st;
          st0 = st\<lparr> socks := (socks st)(w :=
                       \<lparr> ws_open = True, ws_pid = p, ws_term = term_ref s,
                         ws_xterm = xterm_ref s, received = [] \<rparr>),
                    next_ws := Suc w \<rparr>;
          st1 = (case temporaryDisposable s of
                   None \<Rightarrow> st0
                 | Some d \<Rightarrow>
                     if terminalData s = [] then st0
                     else xterm_write (xterm_ref s) (terminalData s)
                            (upd_session p (\<lambda>s. s\<lparr> temporaryDisposable := None \<rparr>)
                               (dispose d st0)))
      in case ws_send w (terminalData s) st1 of None \<Rightarrow> Inl NotOpen
         | Some st2 \<Rightarrow>
             (let r = onData (term_ref s) (Forward (xterm_ref s) w) st2
              in Inr (upd_session p (\<lambda>s. s\<lparr> dataHandler := Some (fst r) \<rparr>) (snd r))))
      | _ \<Rightarrow> Inl TypeError))"

text \<open>The \<^verbatim>\<open>message\<close> handler (lines 141-143), for a socket that is open.\<close>

definition ws_message :: "nat \<Rightarrow> string \<Rightarrow> state \<Rightarrow> fault + state" where
  "ws_message w msg st =
     (if w < next_ws st \<and> ws_open (socks st w)
      then Inr (st\<lparr> ptys := (ptys st)(ws_term (socks st w) :=
                       (ptys st (ws_term (socks st w)))\<lparr> pty_input :=
                          pty_input (ptys st (ws_term (socks st w))) @ [msg] \<rparr>) \<rparr>)
      else Inr st)"

text \<open>
  The socket closes and its \<^verbatim>\<open>close\<close> handler runs (lines 145-154). A socket
  closes once.
\<close>

definition ws_close :: "serializer \<Rightarrow> nat \<Rightarrow> state \<Rightarrow> fault + state" where
  "ws_close ser w st =
     (if w < next_ws st \<and> ws_open (socks st w)
      then
        (let sk = socks st w;
             st0 = st\<lparr> socks := (socks st)(w := sk\<lparr> ws_open := False \<rparr>) \<rparr>
         in case sessions st0 (ws_pid sk) of None \<Rightarrow> Inr st0
            | Some s \<Rightarrow>
           (case dataHandler s of None \<Rightarrow> Inr st0
            | Some d \<Rightarrow>
                Inr (upd_session (ws_pid sk)
                       (\<lambda>s. s\<lparr> terminalData := ser (xterms st0 (ws_xterm sk)) \<rparr>)
                       (upd_session (ws_pid sk) (\<lambda>s. s\<lparr> dataHandler := None \<rparr>)
                          (dispose d st0)))))
      else Inr st)"

text \<open>
  \<^verbatim>\<open>POST /terminals/:pid/terminate\<close> (lines 158-194). A pid that is no integer
  names no entry of the table; \<^verbatim>\<open>session.term\<close> is an object, so the test of line
  171 succeeds.
\<close>

definition post_terminate ::
  "serializer \<Rightarrow> string \<Rightarrow> state \<Rightarrow> fault + (string \<times> state)" where
  "post_terminate ser pid_s st =
     (case session_at st (parseInt pid_s) of None \<Rightarrow> Inr ([], st)
      | Some s \<Rightarrow>
     (case parseInt pid_s of Num p \<Rightarrow>
     (let st1 = (case dataHandler s of
                   None \<Rightarrow> st
                 | Some d \<Rightarrow>
                     (let st' = upd_session p (\<lambda>s. s\<lparr> dataHandler := None \<rparr>) (dispose d st)
                      in if terminalData s = [] then st'
                         else (let st'' = st'\<lparr>
                                     xterms := (xterms st')(xterm_ref s :=
                                       (xterms st' (xterm_ref s))\<lparr> addon_disposed :=
                                          Suc (addon_disposed (xterms st' (xterm_ref s))) \<rparr>),
                                     effects := effects st' @ [AddonDispose (xterm_ref s)] \<rparr>
                               in upd_session p
                                    (\<lambda>s'. s'\<lparr> terminalData := ser (xterms st'' (xterm_ref s)) \<rparr>)
                                    st'')));
          st2 = onExit (term_ref s) (ExitL (xterm_ref s) p) st1
      in Inr ([], st2\<lparr> effects := effects st2 @ [Kill (term_ref s)] \<rparr>))
      | _ \<Rightarrow> Inr ([], st)))"

subsection \<open>Events of the processes\<close>

text \<open>
  The emitter calls the listeners registered when the event fires, in
  registration order; an exception of a listener ends the round. A chunk \<open>d\<close> is
  a byte buffer where the platform has binary transport (line 14) and a string
  elsewhere. The \<open>Buffer\<close> listener appends it to a string with \<^verbatim>\<open>+=\<close>, which
  converts a byte buffer to a string first: \<open>str\<close> is the string the chunk
  becomes there (the chunk itself when it is a string, its decoding as UTF-8
  when it is a byte buffer). The \<open>Forward\<close> listener passes the chunk on as it
  is, and catches what \<^verbatim>\<open>ws.send\<close> throws.
\<close>

fun fire_data :: "string \<Rightarrow> string \<Rightarrow> (nat \<times> listener) list \<Rightarrow> state \<Rightarrow> fault + state" where
  "fire_data d str [] st = Inr st"
| "fire_data d str ((h, Buffer t) # ls) st =
     (case sessions st (pty_pid (ptys st t)) of None \<Rightarrow> Inl TypeError
      | Some s \<Rightarrow>
          fire_data d str ls
            (upd_session (pty_pid (ptys st t))
               (\<lambda>s. s\<lparr> terminalData := terminalData s @ str \<rparr>) st))"
| "fire_data d str ((h, Forward x w) # ls) st =
     fire_data d str ls
       (let st1 = xterm_write x d st
        in case ws_send w d st1 of None \<Rightarrow> st1 | Some st2 \<Rightarrow> st2)"

text \<open>
  The process at \<open>t\<close> emits the chunk \<open>d\<close>, which as a string is \<open>str\<close>; a process
  that has exited emits nothing.
\<close>

definition pty_data :: "nat \<Rightarrow> string \<Rightarrow> string \<Rightarrow> state \<Rightarrow> fault + state" where
  "pty_data t d str st =
     (if t < next_obj st \<and> \<not> exited (ptys st t)
      then fire_data d str (onData_listeners (ptys st t)) st
      else Inr st)"

fun fire_exit :: "exit_listener list \<Rightarrow> state \<Rightarrow> state" where
  "fire_exit [] st = st"
| "fire_exit (ExitL x p # ls) st =
     fire_exit ls
       (st\<lparr> xterms := (xterms st)(x := (xterms st x)\<lparr> xdisposed := Suc (xdisposed (xterms st x)) \<rparr>),
           sessions := (sessions st)(p := None),
           effects := effects st @ [XDispose x, Closed p] \<rparr>)"

text \<open>The process at \<open>t\<close> exits; it does so once.\<close>

definition pty_exit :: "nat \<Rightarrow> state \<Rightarrow> fault + state" where
  "pty_exit t st =
     (if t < next_obj st \<and> \<not> exited (ptys st t)
      then Inr (fire_exit (onExit_listeners (ptys st t))
                  (st\<lparr> ptys := (ptys st)(t := (ptys st t)\<lparr> exited := True \<rparr>) \<rparr>))
      else Inr st)"

subsection \<open>Runs of the server\<close>

datatype event =
    Create "string option" "string option" "int option" bool
  | Resize string "string option" "string option" resize_outcome
  | Connect number
  | Message nat string
  | Close nat
  | Terminate string
  | Data nat string string
  | Exit nat

definition dropResponse :: "fault + (string \<times> state) \<Rightarrow> fault + state" where
  "dropResponse r = (case r of Inl f \<Rightarrow> Inl f | Inr q \<Rightarrow> Inr (snd q))"

fun step :: "serializer \<Rightarrow> event \<Rightarrow> state \<Rightarrow> fault + state" where
  "step ser (Create cols rows spawned made) st =
     dropResponse (post_terminals cols rows spawned made st)"
| "step ser (Resize pid_s cols rows out) st = dropResponse (post_size pid_s cols rows out st)"
| "step ser (Connect pid) st = ws_connection pid st"
| "step ser (Message w msg) st = ws_message w msg st"
| "step ser (Close w) st = ws_close ser w st"
| "step ser (Terminate pid_s) st = dropResponse (post_terminate ser pid_s st)"
| "step ser (Data t d str) st = pty_data t d str st"
| "step ser (Exit t) st = pty_exit t st"

text \<open>
  A run is a sequence of events none of whose handlers throws: it stops at the
  first exception. (A request whose handler throws is answered with an error and
  leaves the table and the listeners as they were.)
\<close>

fun run :: "serializer \<Rightarrow> event list \<Rightarrow> state \<Rightarrow> fault + state" where
  "run ser [] st = Inr st"
| "run ser (e # es) st =
     (case step ser e st of Inl f \<Rightarrow> Inl f | Inr st' \<Rightarrow> run ser es st')"

text \<open>The state a run from the initial state ends in.\<close>

definition state_after :: "serializer \<Rightarrow> event list \<Rightarrow> state" where
  "state_after ser es = (case run ser es init of Inl f \<Rightarrow> init | Inr st \<Rightarrow> st)"

subsection \<open>Notions the properties are stated with\<close>

text \<open>A number that is falsy in JavaScript: \<^verbatim>\<open>n || d\<close> gives \<open>d\<close> for exactly these.\<close>

definition falsy :: "number \<Rightarrow> bool" where
  "falsy n = (n = NaN \<or> n = Num 0)"

definition is_Buffer :: "listener \<Rightarrow> bool" where
  "is_Buffer l = (case l of Buffer t \<Rightarrow> True | Forward x w \<Rightarrow> False)"

text \<open>A session buffers while a \<open>Buffer\<close> listener is registered on its process.\<close>

definition buffering :: "state \<Rightarrow> int \<Rightarrow> bool" where
  "buffering st p =
     (case sessions st p of None \<Rightarrow> False
      | Some s \<Rightarrow> list_ex (\<lambda>e. is_Buffer (snd e)) (onData_listeners (ptys st (term_ref s))))"

text \<open>
  What a chunk \<open>d\<close> makes the \<open>Forward\<close> listeners of a list do, in order: each
  writes the chunk to its xterm and then, if its socket is open, sends it.
\<close>

fun chunk_effects :: "(nat \<Rightarrow> bool) \<Rightarrow> string \<Rightarrow> (nat \<times> listener) list \<Rightarrow> effect list" where
  "chunk_effects opn d [] = []"
| "chunk_effects opn d ((h, Buffer t) # ls) = chunk_effects opn d ls"
| "chunk_effects opn d ((h, Forward x w) # ls) =
     (if opn w then [XWrite x d, WsSend w d] else [XWrite x d]) @ chunk_effects opn d ls"

text \<open>The xterm and the socket of every \<open>Forward\<close> listener of a list.\<close>

fun forward_pairs :: "(nat \<times> listener) list \<Rightarrow> (nat \<times> nat) list" where
  "forward_pairs [] = []"
| "forward_pairs ((h, Buffer t) # ls) = forward_pairs ls"
| "forward_pairs ((h, Forward x w) # ls) = (x, w) # forward_pairs ls"

text \<open>
  A list of effects consists of writes of the chunk \<open>d\<close> to xterms and of sends of
  \<open>d\<close> on sockets, and every send on a socket \<open>w\<close> comes directly after the write
  to an xterm \<open>x\<close> that one listener holds together with \<open>w\<close>.
\<close>

fun write_before_send :: "(nat \<times> nat) list \<Rightarrow> string \<Rightarrow> effect list \<Rightarrow> bool" where
  "write_before_send ps d [] = True"
| "write_before_send ps d (XWrite x d1 # WsSend w d2 # es) =
     (d1 = d \<and> d2 = d \<and> (x, w) \<in> set ps \<and> write_before_send ps d es)"
| "write_before_send ps d (XWrite x d1 # es) = (d1 = d \<and> write_before_send ps d es)"
| "write_before_send ps d (e # es) = False"

text \<open>
  The invariant behind the buffering property: the only \<open>Buffer\<close> listener on the
  process of a session is the one its \<open>temporaryDisposable\<close> removes.
\<close>

definition tracked :: "state \<Rightarrow> bool" where
  "tracked st =
     (\<forall>p s. sessions st p = Some s \<longrightarrow>
        term_ref s < next_obj st \<and>
        (\<forall>h t. (h, Buffer t) \<in> set (onData_listeners (ptys st (term_ref s))) \<longrightarrow>
           temporaryDisposable s = Some (term_ref s, h)))"

text \<open>Every socket a \<open>Forward\<close> listener holds has been allocated.\<close>

definition fresh :: "state \<Rightarrow> bool" where
  "fresh st =
     (\<forall>a h x w. (h, Forward x w) \<in> set (onData_listeners (ptys st a)) \<longrightarrow> w < next_ws st)"

text \<open>
  The entry \<open>p\<close> of the table, as long as it is the session of the process at \<open>a\<close>,
  has no \<open>temporaryDisposable\<close>.
\<close>

definition quiet :: "int \<Rightarrow> nat \<Rightarrow> state \<Rightarrow> bool" where
  "quiet p a st =
     (a < next_obj st \<and>
      (\<forall>s. sessions st p = Some s \<and> term_ref s = a \<longrightarrow> temporaryDisposable s = None))"

subsection \<open>Concrete runs\<close>

text \<open>
  Two serializers for the concrete runs: one gives the stream written to the xterm
  so far, the other frames it.
\<close>

definition stream_serialize :: serializer where
  "stream_serialize x = xwritten x"

definition sample_serialize :: serializer where
  "sample_serialize x = ''<'' @ xwritten x @ ''>''"

definition tr_created :: "event list" where
  "tr_created = [Create (Some ''80'') (Some ''24'') (Some 7) True]"

definition tr_created_mixed :: "event list" where
  "tr_created_mixed = [Create (Some ''abc'') (Some ''30'') (Some 7) True]"

definition tr_unattached :: "event list" where
  "tr_unattached = tr_created @ [Data 0 ''hi'' ''hi'']"

definition tr_attached :: "event list" where
  "tr_attached = tr_unattached @ [Connect (Num 7)]"

definition tr_streamed :: "event list" where
  "tr_streamed = tr_attached @ [Data 0 ''x'' ''x'']"

definition tr_streamed_again :: "event list" where
  "tr_streamed_again = tr_streamed @ [Connect (Num 7)]"

definition tr_attached_again :: "event list" where
  "tr_attached_again = tr_attached @ [Connect (Num 7)]"

definition tr_attached_early :: "event list" where
  "tr_attached_early = tr_created @ [Connect (Num 7), Data 0 ''x'' ''x'']"

definition tr_superseded :: "event list" where
  "tr_superseded = tr_attached_again @ [Data 0 ''x'' ''x'']"

definition tr_first_closed :: "event list" where
  "tr_first_closed = tr_attached_again @ [Close 0]"

definition tr_both_closed :: "event list" where
  "tr_both_closed = tr_first_closed @ [Data 0 ''y'' ''y'', Close 1]"

definition tr_terminated_twice :: "event list" where
  "tr_terminated_twice = tr_created @ [Terminate ''7'', Terminate ''7'']"

definition tr_exited :: "event list" where
  "tr_exited = tr_created @ [Exit 0]"

definition st_created :: state where
  "st_created = state_after sample_serialize tr_created"

definition st_unattached :: state where
  "st_unattached = state_after sample_serialize tr_unattached"

definition st_attached :: state where
  "st_attached = state_after sample_serialize tr_attached"

definition st_streamed :: state where
  "st_streamed = state_after sample_serialize tr_streamed"

section \<open>Properties\<close>

lemmas prim_defs = session_at_def upd_session_def onData_def dispose_def onExit_def
  xterm_write_def ws_send_def

lemmas parse_defs = parseInt_def parseIntQ_def skip_white.simps white_len_def is_digit_def
  digit_value_def round_to_double_def num_or_def

lemmas handler_defs = post_terminals_def post_size_def ws_connection_def ws_message_def
  ws_close_def post_terminate_def pty_data_def pty_exit_def dropResponse_def

lemmas trace_defs = tr_created_def tr_unattached_def tr_attached_def tr_streamed_def
  tr_attached_again_def tr_attached_early_def tr_superseded_def tr_terminated_twice_def
  tr_exited_def tr_created_mixed_def tr_streamed_again_def tr_first_closed_def
  tr_both_closed_def

lemmas run_defs = state_after_def init_def Let_def st_created_def st_unattached_def
  st_attached_def st_streamed_def

lemmas eval_defs = trace_defs run_defs handler_defs prim_defs parse_defs

subsection \<open>Requests that name no session\<close>

lemma post_size_unknown:
  "session_at st (parseInt pid_s) = None \<Longrightarrow> post_size pid_s cols rows out st = Inl TypeError"
  by (simp add: post_size_def)

lemma post_terminate_unknown:
  "session_at st (parseInt pid_s) = None \<Longrightarrow> post_terminate ser pid_s st = Inr ([], st)"
  by (simp add: post_terminate_def)

text \<open>
  Claim C5. A resize or terminate request that names a session the table does not
  hold should end silently. The terminate handler does (lines 162-167), but the
  resize handler destructures \<^verbatim>\<open>sessions[pid]\<close> without a test (line 89) and throws
  a TypeError, whatever the libraries would do: here for pid 999 on the server
  that has no session.
\<close>

theorem resize_unknown_session_throws:
  "post_size ''999'' (Some ''80'') (Some ''24'') out init = Inl TypeError
   \<and> post_terminate ser ''999'' init = Inr ([], init)"
  by (simp add: post_size_unknown post_terminate_unknown session_at_def init_def
        split: number.splits)

subsection \<open>Creating a session\<close>

text \<open>
  Claim C10, as the code has it. For a create request with string parameters on
  which \<^verbatim>\<open>pty.spawn\<close> and \<^verbatim>\<open>new Terminal\<close> return, the body of the response is
  the pid of the spawned process and the new entry of the table is keyed by that
  pid. Each dimension is defaulted on its own: the process and the xterm are both
  given 80 columns when the \<^verbatim>\<open>cols\<close> parameter parses to NaN or to zero, and the
  number it parses to otherwise; both are given 24 rows when the \<^verbatim>\<open>rows\<close>
  parameter parses to NaN or to zero, and the number it parses to otherwise.
\<close>

theorem create_session_pid_and_dimensions:
  "\<exists>st' s. post_terminals (Some c) (Some r) (Some pid) True st = Inr (toString pid, st')
     \<and> sessions st' pid = Some s
     \<and> pty_pid (ptys st' (term_ref s)) = pid
     \<and> pty_cols_arg (ptys st' (term_ref s))
         = (if falsy (parseInt c) then Num 80 else parseInt c)
     \<and> pty_rows_arg (ptys st' (term_ref s))
         = (if falsy (parseInt r) then Num 24 else parseInt r)
     \<and> xterm_cols_arg (xterms st' (xterm_ref s))
         = (if falsy (parseInt c) then Num 80 else parseInt c)
     \<and> xterm_rows_arg (xterms st' (xterm_ref s))
         = (if falsy (parseInt r) then Num 24 else parseInt r)
     \<and> (falsy (parseInt c) \<longrightarrow> pty_cols_arg (ptys st' (term_ref s)) = Num 80
           \<and> xterm_cols_arg (xterms st' (xterm_ref s)) = Num 80)
     \<and> (falsy (parseInt r) \<longrightarrow> pty_rows_arg (ptys st' (term_ref s)) = Num 24
           \<and> xterm_rows_arg (xterms st' (xterm_ref s)) = Num 24)"
  by (simp add: post_terminals_def prim_defs Let_def num_or_def falsy_def split: number.splits)

text \<open>At the request \<^verbatim>\<open>cols=abc&rows=30\<close> on the server that has no session.\<close>

theorem create_session_pid_and_dimensions_witness:
  "falsy (parseInt ''abc'') \<and> parseInt ''30'' = Num 30 \<and> toString 7 = ''7''
   \<and> (\<exists>st' s. post_terminals (Some ''abc'') (Some ''30'') (Some 7) True init = Inr (''7'', st')
        \<and> sessions st' 7 = Some s
        \<and> pty_pid (ptys st' (term_ref s)) = 7
        \<and> pty_cols_arg (ptys st' (term_ref s)) = Num 80
        \<and> pty_rows_arg (ptys st' (term_ref s)) = Num 30
        \<and> xterm_cols_arg (xterms st' (xterm_ref s)) = Num 80
        \<and> xterm_rows_arg (xterms st' (xterm_ref s)) = Num 30)"
proof -
  have a: "parseInt ''abc'' = NaN" "parseInt ''30'' = Num 30"
    by (simp_all add: parse_defs)
  have c: "toString 7 = ''7''" by code_simp
  from create_session_pid_and_dimensions [of "''abc''" "''30''" 7 init] a c
  show ?thesis by (auto simp: falsy_def)
qed

text \<open>
  Against claim C10 as stated: with \<^verbatim>\<open>cols=abc\<close>, which does not parse, and
  \<^verbatim>\<open>rows=30\<close>, the process and the xterm are created with 80 columns and 30
  rows, not with the default 24 rows.
\<close>

theorem create_defaults_one_dimension:
  "parseInt ''abc'' = NaN
   \<and> pty_cols_arg (ptys (state_after sample_serialize tr_created_mixed) 0) = Num 80
   \<and> pty_rows_arg (ptys (state_after sample_serialize tr_created_mixed) 0) = Num 30
   \<and> xterm_cols_arg (xterms (state_after sample_serialize tr_created_mixed) 0) = Num 80
   \<and> xterm_rows_arg (xterms (state_after sample_serialize tr_created_mixed) 0) = Num 30"
  by (simp add: eval_defs)

subsection \<open>Attaching a transport\<close>

text \<open>
  Claim C2, as the code has it. Attaching hands the buffered bytes to the new
  transport and leaves \<open>terminalData\<close> as it is: the buffer is not cleared. A
  second attach right after the first is sent the same bytes again.
\<close>

theorem attach_keeps_buffer:
  assumes "sessions st p = Some s"
  shows "\<exists>st1 st2 s1. ws_connection (Num p) st = Inr st1
     \<and> sessions st1 p = Some s1 \<and> terminalData s1 = terminalData s
     \<and> received (socks st1 (next_ws st)) = [terminalData s]
     \<and> ws_connection (Num p) st1 = Inr st2
     \<and> received (socks st2 (next_ws st1)) = [terminalData s]"
  using assms
  by (simp add: ws_connection_def prim_defs Let_def split: option.splits)

text \<open>At the session that buffered \<^verbatim>\<open>hi\<close> and has no transport yet.\<close>

theorem attach_keeps_buffer_witness:
  "sessions st_unattached 7 =
     Some \<lparr> term_ref = 0, xterm_ref = 0, terminalData = ''hi'',
            temporaryDisposable = Some (0, 0), dataHandler = None \<rparr>
   \<and> (\<exists>st1 st2 s1. ws_connection (Num 7) st_unattached = Inr st1
        \<and> sessions st1 7 = Some s1 \<and> terminalData s1 = ''hi''
        \<and> received (socks st1 (next_ws st_unattached)) = [''hi'']
        \<and> ws_connection (Num 7) st1 = Inr st2
        \<and> received (socks st2 (next_ws st1)) = [''hi''])"
proof -
  have h: "sessions st_unattached 7 =
     Some \<lparr> term_ref = 0, xterm_ref = 0, terminalData = ''hi'',
            temporaryDisposable = Some (0, 0), dataHandler = None \<rparr>"
    by (simp add: eval_defs)
  from attach_keeps_buffer [OF h] h show ?thesis by simp
qed

text \<open>
  Against claim C2 as stated: after the process wrote \<^verbatim>\<open>hi\<close> and a transport
  attached, the buffer still holds \<^verbatim>\<open>hi\<close>, and a second transport attaching with
  no output in between is sent \<^verbatim>\<open>hi\<close>.
\<close>

theorem second_attach_gets_buffer_again:
  "map_option terminalData (sessions st_attached 7) = Some ''hi''
   \<and> received (socks (state_after sample_serialize tr_attached_again) 1) = [''hi'']"
  by (simp add: eval_defs)

text \<open>
  Claim C8, as the code has it. The first message on a newly attached transport
  is the \<open>terminalData\<close> the session holds when the attach begins; the
  connection handler does not call the serializer. When the attach comes directly
  after the close of an open socket of the session that captured the session's
  xterm, at a moment the session has a \<open>dataHandler\<close>, the close handler has just
  stored the serialized state of the xterm and has left the xterm as it was, so
  that the first message is the serialized state the xterm has when the attach
  begins.
\<close>

theorem first_message_is_buffer:
  assumes "sessions st p = Some s"
  shows "\<exists>st1. ws_connection (Num p) st = Inr st1
     \<and> received (socks st1 (next_ws st)) = [terminalData s]
     \<and> (\<forall>w d. w < next_ws st \<and> ws_open (socks st w) \<and> ws_pid (socks st w) = p
              \<and> ws_xterm (socks st w) = xterm_ref s \<and> dataHandler s = Some d \<longrightarrow>
          (\<exists>st2 st3. ws_close ser w st = Inr st2
             \<and> xterms st2 = xterms st
             \<and> ws_connection (Num p) st2 = Inr st3
             \<and> received (socks st3 (next_ws st2)) = [ser (xterms st2 (xterm_ref s))]))"
  using assms
  by (auto simp add: ws_connection_def ws_close_def prim_defs Let_def split: option.splits)

text \<open>
  At the session that was attached to after \<^verbatim>\<open>hi\<close> and then wrote \<^verbatim>\<open>x\<close>: an
  attach now is sent \<^verbatim>\<open>hi\<close>; an attach after the close of the first socket is
  sent the serialized stream \<^verbatim>\<open>hix\<close>.
\<close>

theorem first_message_is_buffer_witness:
  "sessions st_streamed 7 =
     Some \<lparr> term_ref = 0, xterm_ref = 0, terminalData = ''hi'',
            temporaryDisposable = None, dataHandler = Some (0, 1) \<rparr>
   \<and> 0 < next_ws st_streamed \<and> ws_open (socks st_streamed 0)
   \<and> ws_pid (socks st_streamed 0) = 7 \<and> ws_xterm (socks st_streamed 0) = 0
   \<and> (\<exists>st1 st2 st3. ws_connection (Num 7) st_streamed = Inr st1
        \<and> received (socks st1 1) = [''hi'']
        \<and> ws_close stream_serialize 0 st_streamed = Inr st2
        \<and> xwritten (xterms st2 0) = ''hix''
        \<and> ws_connection (Num 7) st2 = Inr st3
        \<and> received (socks st3 1) = [''hix''])"
proof -
  let ?s = "\<lparr> term_ref = 0, xterm_ref = 0, terminalData = ''hi'',
            temporaryDisposable = None, dataHandler = Some (0, 1) \<rparr>"
  have h: "sessions st_streamed 7 = Some ?s"
    by (simp add: eval_defs)
  have k: "0 < next_ws st_streamed" "ws_open (socks st_streamed 0)"
    "ws_pid (socks st_streamed 0) = 7" "ws_xterm (socks st_streamed 0) = 0"
    "next_ws st_streamed = 1" "xwritten (xterms st_streamed 0) = ''hix''"
    by (simp_all add: eval_defs)
  from first_message_is_buffer [OF h, of stream_serialize] obtain st1 where
    a: "ws_connection (Num 7) st_streamed = Inr st1"
      "received (socks st1 (next_ws st_streamed)) = [terminalData ?s]"
    and b: "\<forall>w d. w < next_ws st_streamed \<and> ws_open (socks st_streamed w)
              \<and> ws_pid (socks st_streamed w) = 7
              \<and> ws_xterm (socks st_streamed w) = xterm_ref ?s \<and> dataHandler ?s = Some d \<longrightarrow>
          (\<exists>st2 st3. ws_close stream_serialize w st_streamed = Inr st2
             \<and> xterms st2 = xterms st_streamed
             \<and> ws_connection (Num 7) st2 = Inr st3
             \<and> received (socks st3 (next_ws st2))
                  = [stream_serialize (xterms st2 (xterm_ref ?s))])"
    by blast
  from b [rule_format, of 0 "(0, 1)"] k obtain st2 st3 where
    c: "ws_close stream_serialize 0 st_streamed = Inr st2"
      "xterms st2 = xterms st_streamed"
      "ws_connection (Num 7) st2 = Inr st3"
      "received (socks st3 (next_ws st2)) = [stream_serialize (xterms st2 0)]"
    by auto
  have n: "next_ws st2 = 1"
    using c(1) k by (auto simp: ws_close_def prim_defs Let_def h split: option.splits)
  from a c k n have "received (socks st1 1) = [''hi'']" "xwritten (xterms st2 0) = ''hix''"
    "received (socks st3 1) = [''hix'']"
    by (simp_all add: stream_serialize_def)
  with h k a c show ?thesis by blast
qed

text \<open>
  Against claim C8 as stated: after output \<^verbatim>\<open>hi\<close>, an attach, and output \<^verbatim>\<open>x\<close>
  (written to the xterm and sent on the first socket), a second transport
  attaching is sent \<^verbatim>\<open>hi\<close> as its first message, while the xterm has been
  written \<^verbatim>\<open>hix\<close>. No close has happened, so no serializer has run: the message
  is the same for every serializer, and is not the state of the xterm.
\<close>

theorem attach_sends_stale_buffer:
  "received (socks (state_after stream_serialize tr_streamed_again) 1) = [''hi'']
   \<and> xwritten (xterms (state_after stream_serialize tr_streamed_again) 0) = ''hix''
   \<and> stream_serialize (xterms (state_after stream_serialize tr_streamed_again) 0) = ''hix''
   \<and> received (socks (state_after stream_serialize tr_streamed_again) 0) = [''hi'', ''x'']"
  by (simp add: eval_defs stream_serialize_def)

text \<open>
  Claim C3. A second transport attaching should supersede the first. The
  connection handler stores the new disposable over the old one (line 128) without
  disposing of it, so the listener of the first transport stays registered: after
  output \<^verbatim>\<open>hi\<close> and two attaches, a chunk \<^verbatim>\<open>x\<close> is sent on both sockets and
  written to the xterm twice.
\<close>

theorem second_attach_leaves_first_subscribed:
  "received (socks (state_after ser tr_superseded) 0) = [''hi'', ''x'']
   \<and> received (socks (state_after ser tr_superseded) 1) = [''hi'', ''x'']
   \<and> xwritten (xterms (state_after ser tr_superseded) 0) = ''hixx''
   \<and> onData_listeners (ptys (state_after ser tr_superseded) 0) =
        [(1, Forward 0 0), (2, Forward 0 1)]"
  by (simp add: eval_defs)

subsection \<open>Output of a process\<close>

lemma chunk_effects_append:
  "chunk_effects opn d (xs @ ys) = chunk_effects opn d xs @ chunk_effects opn d ys"
  by (induction opn d xs rule: chunk_effects.induct) auto

lemma forward_pairs_append: "forward_pairs (xs @ ys) = forward_pairs xs @ forward_pairs ys"
  by (induction xs rule: forward_pairs.induct) auto

lemma forward_pairs_mem:
  "((x, w) \<in> set (forward_pairs ls)) = (\<exists>h. (h, Forward x w) \<in> set ls)"
  by (induction ls rule: forward_pairs.induct) auto

lemma write_before_send_XWrite:
  "write_before_send ps d es \<Longrightarrow> write_before_send ps d (XWrite x d # es)"
  by (cases "(ps, d, es)" rule: write_before_send.cases) auto

lemma write_before_send_mono:
  "write_before_send ps d es \<Longrightarrow> set ps \<subseteq> set qs \<Longrightarrow> write_before_send qs d es"
  by (induction ps d es rule: write_before_send.induct) auto

lemma chunk_effects_ordered:
  "write_before_send (forward_pairs ls) d (chunk_effects opn d ls)"
proof (induction opn d ls rule: chunk_effects.induct)
  case (1 opn d)
  then show ?case by simp
next
  case (2 opn d h t ls)
  then show ?case by simp
next
  case (3 opn d h x w ls)
  have "write_before_send ((x, w) # forward_pairs ls) d (chunk_effects opn d ls)"
    using 3 by (rule write_before_send_mono) auto
  then show ?case
    by (auto intro: write_before_send_XWrite)
qed

lemma chunk_effects_pair:
  "(h, Forward x w) \<in> set ls \<Longrightarrow> opn w \<Longrightarrow>
     \<exists>pre post. chunk_effects opn d ls = pre @ [XWrite x d, WsSend w d] @ post"
proof (induction opn d ls rule: chunk_effects.induct)
  case (1 opn d)
  then show ?case by simp
next
  case (2 opn d h' t ls)
  then show ?case by auto
next
  case (3 opn d h' x' w' ls)
  show ?case
  proof (cases "(h', Forward x' w') = (h, Forward x w)")
    case True
    with 3 have "chunk_effects opn d ((h', Forward x' w') # ls)
        = [] @ [XWrite x d, WsSend w d] @ chunk_effects opn d ls" by simp
    then show ?thesis by blast
  next
    case False
    with 3 obtain pre post where
      "chunk_effects opn d ls = pre @ [XWrite x d, WsSend w d] @ post" by auto
    then have "chunk_effects opn d ((h', Forward x' w') # ls)
        = ((if opn w' then [XWrite x' d, WsSend w' d] else [XWrite x' d]) @ pre)
          @ [XWrite x d, WsSend w d] @ post" by simp
    then show ?thesis by blast
  qed
qed

lemma fire_data_exact:
  "fire_data d str ls st = Inr st' \<Longrightarrow> (\<And>w. opn w = ws_open (socks st w)) \<Longrightarrow>
     effects st' = effects st @ chunk_effects opn d ls
     \<and> (\<forall>w. ws_open (socks st' w) = opn w)
     \<and> (\<forall>w. received (socks st' w) = received (socks st w)
            @ replicate (count_list (chunk_effects opn d ls) (WsSend w d)) d)
     \<and> (\<forall>x. xwritten (xterms st' x) = xwritten (xterms st x)
            @ concat (replicate (count_list (chunk_effects opn d ls) (XWrite x d)) d))"
proof (induction d str ls st rule: fire_data.induct)
  case (1 d str st)
  then show ?case by simp
next
  case (2 d str h t ls st)
  from "2.prems"(1) obtain s0 where s0: "sessions st (pty_pid (ptys st t)) = Some s0"
    by (auto split: option.splits)
  let ?mid = "upd_session (pty_pid (ptys st t)) (\<lambda>s. s\<lparr> terminalData := terminalData s @ str \<rparr>) st"
  from "2.prems"(1) s0 have f: "fire_data d str ls ?mid = Inr st'" by simp
  have m: "socks ?mid = socks st" "xterms ?mid = xterms st" "effects ?mid = effects st"
    using s0 by (simp_all add: upd_session_def)
  have "\<And>w. opn w = ws_open (socks ?mid w)" using "2.prems"(2) m by simp
  from "2.IH" [OF s0 f this] m show ?case by simp
next
  case (3 d str h x w ls st)
  let ?mid = "let st1 = xterm_write x d st in case ws_send w d st1 of None \<Rightarrow> st1 | Some st2 \<Rightarrow> st2"
  from "3.prems"(1) have f: "fire_data d str ls ?mid = Inr st'" by simp
  have o: "\<And>v. opn v = ws_open (socks ?mid v)"
    using "3.prems"(2) by (simp add: xterm_write_def ws_send_def Let_def)
  note ih = "3.IH" [OF f o]
  show ?case
  proof (cases "opn w")
    case True
    then have op: "ws_open (socks st w)" using "3.prems"(2) by simp
    have m: "effects ?mid = effects st @ [XWrite x d, WsSend w d]"
      "\<And>v. received (socks ?mid v) = received (socks st v) @ (if v = w then [d] else [])"
      "\<And>y. xwritten (xterms ?mid y) = xwritten (xterms st y) @ (if y = x then d else [])"
      using op by (simp_all add: xterm_write_def ws_send_def Let_def)
    from ih m True show ?thesis
      by (auto simp: replicate_append_same)
  next
    case False
    then have op: "\<not> ws_open (socks st w)" using "3.prems"(2) by simp
    have m: "effects ?mid = effects st @ [XWrite x d]"
      "\<And>v. received (socks ?mid v) = received (socks st v)"
      "\<And>y. xwritten (xterms ?mid y) = xwritten (xterms st y) @ (if y = x then d else [])"
      using op by (simp_all add: xterm_write_def ws_send_def Let_def)
    from ih m False show ?thesis by auto
  qed
qed

text \<open>
  Claim C6. For every chunk a process emits, the round of listeners does exactly
  this: each forwarding listener, in registration order, writes the chunk to its
  xterm and then, when its socket is open, sends the chunk on it. So every send of
  the chunk on a socket comes directly after the write of the same chunk to the
  xterm the same listener holds; a socket receives the chunk once for each send,
  the stream of an xterm grows by the chunk once for each write, and every
  forwarding listener whose socket is open contributes its write followed by its
  send.
\<close>

theorem chunk_written_before_forwarded:
  assumes "pty_data t d str st = Inr st'"
  shows "\<exists>es. effects st' = effects st @ es
     \<and> es = (if t < next_obj st \<and> \<not> exited (ptys st t)
             then chunk_effects (\<lambda>w. ws_open (socks st w)) d (onData_listeners (ptys st t))
             else [])
     \<and> write_before_send (forward_pairs (onData_listeners (ptys st t))) d es
     \<and> (\<forall>w. received (socks st' w)
             = received (socks st w) @ replicate (count_list es (WsSend w d)) d)
     \<and> (\<forall>x. xwritten (xterms st' x)
             = xwritten (xterms st x) @ concat (replicate (count_list es (XWrite x d)) d))
     \<and> (\<forall>h x w. t < next_obj st \<and> \<not> exited (ptys st t)
             \<and> (h, Forward x w) \<in> set (onData_listeners (ptys st t))
             \<and> ws_open (socks st w) \<longrightarrow>
           (\<exists>pre post. es = pre @ [XWrite x d, WsSend w d] @ post))"
proof (cases "t < next_obj st \<and> \<not> exited (ptys st t)")
  case True
  let ?ls = "onData_listeners (ptys st t)"
  let ?es = "chunk_effects (\<lambda>w. ws_open (socks st w)) d ?ls"
  from True assms have "fire_data d str ?ls st = Inr st'"
    by (simp add: pty_data_def)
  from fire_data_exact [OF this, of "\<lambda>w. ws_open (socks st w)"]
  have e: "effects st' = effects st @ ?es"
    and r: "\<forall>w. received (socks st' w)
             = received (socks st w) @ replicate (count_list ?es (WsSend w d)) d"
    and x: "\<forall>x. xwritten (xterms st' x)
             = xwritten (xterms st x) @ concat (replicate (count_list ?es (XWrite x d)) d)"
    by simp_all
  have p: "\<forall>h x w. (h, Forward x w) \<in> set ?ls \<and> ws_open (socks st w) \<longrightarrow>
           (\<exists>pre post. ?es = pre @ [XWrite x d, WsSend w d] @ post)"
    using chunk_effects_pair [of _ _ _ ?ls "\<lambda>w. ws_open (socks st w)" d] by blast
  from True e r x p chunk_effects_ordered [of ?ls d "\<lambda>w. ws_open (socks st w)"]
  show ?thesis by simp
next
  case False
  with assms have "st' = st" by (auto simp: pty_data_def)
  with False show ?thesis by auto
qed

text \<open>
  At the session attached to after \<^verbatim>\<open>hi\<close>, for the chunk \<^verbatim>\<open>x\<close>: it is written to
  the xterm, then sent on the socket.
\<close>

theorem chunk_written_before_forwarded_witness:
  "pty_data 0 ''x'' ''x'' st_attached = Inr st_streamed
   \<and> effects st_streamed = effects st_attached @ [XWrite 0 ''x'', WsSend 0 ''x'']
   \<and> received (socks st_attached 0) = [''hi'']
   \<and> received (socks st_streamed 0) = [''hi'', ''x'']
   \<and> xwritten (xterms st_attached 0) = ''hi''
   \<and> xwritten (xterms st_streamed 0) = ''hix''"
proof -
  have a: "pty_data 0 ''x'' ''x'' st_attached = Inr st_streamed"
    by (simp add: eval_defs)
  have b: "0 < next_obj st_attached" "\<not> exited (ptys st_attached 0)"
    "onData_listeners (ptys st_attached 0) = [(1, Forward 0 0)]"
    "ws_open (socks st_attached 0)"
    "received (socks st_attached 0) = [''hi'']"
    "xwritten (xterms st_attached 0) = ''hi''"
    by (simp_all add: eval_defs)
  from chunk_written_before_forwarded [OF a] b
  have "effects st_streamed = effects st_attached @ [XWrite 0 ''x'', WsSend 0 ''x'']"
    "received (socks st_streamed 0) = [''hi'', ''x'']"
    "xwritten (xterms st_streamed 0) = ''hix''"
    by simp_all
  with a b show ?thesis by simp
qed

subsection \<open>Invariants of the runs\<close>

text \<open>
  The initial state satisfies \<open>tracked\<close> and \<open>fresh\<close>, and every handler
  preserves them, and \<open>quiet\<close> as well; so they hold in every state of a run.
\<close>

lemma tracked_init: "tracked init"
  by (simp add: tracked_def init_def)

lemma trackedD:
  "tracked st \<Longrightarrow> sessions st p = Some s \<Longrightarrow>
     (h, Buffer t) \<in> set (onData_listeners (ptys st (term_ref s))) \<Longrightarrow>
     temporaryDisposable s = Some (term_ref s, h)"
  unfolding tracked_def by blast

lemma tracked_lt: "tracked st \<Longrightarrow> sessions st p = Some s \<Longrightarrow> term_ref s < next_obj st"
  unfolding tracked_def by blast

lemma trackedI:
  assumes "\<And>p s. sessions st p = Some s \<Longrightarrow> term_ref s < next_obj st"
    and "\<And>p s h t. sessions st p = Some s \<Longrightarrow>
           (h, Buffer t) \<in> set (onData_listeners (ptys st (term_ref s))) \<Longrightarrow>
           temporaryDisposable s = Some (term_ref s, h)"
  shows "tracked st"
  unfolding tracked_def using assms by blast

lemma tracked_post_terminals:
  "tracked st \<Longrightarrow> post_terminals cols rows spawned made st = Inr (b, st') \<Longrightarrow> tracked st'"
  unfolding tracked_def post_terminals_def
  by (fastforce simp: prim_defs Let_def less_Suc_eq split: option.splits if_splits number.splits resize_outcome.splits)

lemma tracked_ws_message:
  "tracked st \<Longrightarrow> ws_message w msg st = Inr st' \<Longrightarrow> tracked st'"
  unfolding tracked_def ws_message_def
  by (fastforce simp: prim_defs Let_def split: option.splits if_splits number.splits resize_outcome.splits)

lemma tracked_ws_close:
  "tracked st \<Longrightarrow> ws_close ser w st = Inr st' \<Longrightarrow> tracked st'"
  unfolding tracked_def ws_close_def
  by (fastforce simp: prim_defs Let_def split: option.splits if_splits number.splits resize_outcome.splits)

lemma tracked_post_terminate:
  "tracked st \<Longrightarrow> post_terminate ser pid_s st = Inr (b, st') \<Longrightarrow> tracked st'"
  unfolding tracked_def post_terminate_def
  by (fastforce simp: prim_defs Let_def split: option.splits if_splits number.splits resize_outcome.splits)

lemma tracked_post_size:
  "tracked st \<Longrightarrow> post_size pid_s cols rows out st = Inr (b, st') \<Longrightarrow> tracked st'"
  unfolding tracked_def post_size_def
  by (fastforce simp: prim_defs Let_def split: option.splits if_splits number.splits resize_outcome.splits)

lemma tracked_ws_connection:
  "tracked st \<Longrightarrow> ws_connection pid st = Inr st' \<Longrightarrow> tracked st'"
  unfolding tracked_def ws_connection_def
  by (fastforce simp: prim_defs Let_def split: option.splits if_splits number.splits resize_outcome.splits)

text \<open>A round of data listeners touches neither the processes nor the references of the sessions.\<close>

lemma fire_data_ptys: "fire_data d str ls st = Inr st' \<Longrightarrow> ptys st' = ptys st"
  by (induction d str ls st rule: fire_data.induct)
     (auto simp: upd_session_def xterm_write_def ws_send_def Let_def split: option.splits)

lemma fire_data_next_obj: "fire_data d str ls st = Inr st' \<Longrightarrow> next_obj st' = next_obj st"
  by (induction d str ls st rule: fire_data.induct)
     (auto simp: upd_session_def xterm_write_def ws_send_def Let_def split: option.splits)

lemma fire_data_sessions:
  "fire_data d str ls st = Inr st' \<Longrightarrow> sessions st' p = Some s' \<Longrightarrow>
     \<exists>s. sessions st p = Some s \<and> term_ref s' = term_ref s
        \<and> temporaryDisposable s' = temporaryDisposable s"
proof (induction d str ls st arbitrary: s' rule: fire_data.induct)
  case (1 d str st)
  then show ?case by simp
next
  case (2 d str h t ls st)
  from "2.prems"(1) obtain s0 where s0: "sessions st (pty_pid (ptys st t)) = Some s0"
    by (auto split: option.splits)
  let ?mid = "upd_session (pty_pid (ptys st t)) (\<lambda>s. s\<lparr> terminalData := terminalData s @ str \<rparr>) st"
  from "2.prems"(1) s0 have "fire_data d str ls ?mid = Inr st'" by simp
  from "2.IH" [OF s0 this "2.prems"(2)] obtain s1 where
    "sessions ?mid p = Some s1" "term_ref s' = term_ref s1"
    "temporaryDisposable s' = temporaryDisposable s1" by blast
  with s0 show ?case by (auto simp: upd_session_def split: if_splits)
next
  case (3 d str h x w ls st)
  let ?mid = "let st1 = xterm_write x d st in case ws_send w d st1 of None \<Rightarrow> st1 | Some st2 \<Rightarrow> st2"
  have mid: "sessions ?mid = sessions st"
    by (simp add: xterm_write_def ws_send_def Let_def)
  from "3.prems"(1) have "fire_data d str ls ?mid = Inr st'" by simp
  from "3.IH" [OF this "3.prems"(2)] mid show ?case by simp
qed

lemma tracked_pty_data:
  assumes "tracked st" and "pty_data t d str st = Inr st'"
  shows "tracked st'"
proof (cases "t < next_obj st \<and> \<not> exited (ptys st t)")
  case True
  with assms(2) have fd: "fire_data d str (onData_listeners (ptys st t)) st = Inr st'"
    by (simp add: pty_data_def)
  show ?thesis
  proof (rule trackedI)
    fix p s' assume "sessions st' p = Some s'"
    from fire_data_sessions [OF fd this] obtain s where
      "sessions st p = Some s" "term_ref s' = term_ref s" by blast
    with assms(1) fire_data_next_obj [OF fd] show "term_ref s' < next_obj st'"
      by (simp add: tracked_lt)
  next
    fix p s' h u
    assume a: "sessions st' p = Some s'"
      and b: "(h, Buffer u) \<in> set (onData_listeners (ptys st' (term_ref s')))"
    from fire_data_sessions [OF fd a] obtain s where
      s: "sessions st p = Some s" "term_ref s' = term_ref s"
         "temporaryDisposable s' = temporaryDisposable s" by blast
    from b s(2) fire_data_ptys [OF fd]
    have "(h, Buffer u) \<in> set (onData_listeners (ptys st (term_ref s)))" by simp
    from trackedD [OF assms(1) s(1) this] s
    show "temporaryDisposable s' = Some (term_ref s', h)" by simp
  qed
next
  case False
  with assms show ?thesis by (simp add: pty_data_def)
qed

text \<open>A round of exit listeners only removes sessions.\<close>

lemma fire_exit_ptys: "ptys (fire_exit ls st) = ptys st"
  by (induction ls st rule: fire_exit.induct) auto

lemma fire_exit_next_obj: "next_obj (fire_exit ls st) = next_obj st"
  by (induction ls st rule: fire_exit.induct) auto

lemma fire_exit_sessions:
  "sessions (fire_exit ls st) p = Some s \<Longrightarrow> sessions st p = Some s"
  by (induction ls st rule: fire_exit.induct) (auto split: if_splits)

lemma tracked_pty_exit:
  assumes "tracked st" and "pty_exit t st = Inr st'"
  shows "tracked st'"
proof (cases "t < next_obj st \<and> \<not> exited (ptys st t)")
  case True
  define st0 where "st0 = st\<lparr> ptys := (ptys st)(t := (ptys st t)\<lparr> exited := True \<rparr>) \<rparr>"
  from True assms(2) have st': "st' = fire_exit (onExit_listeners (ptys st t)) st0"
    by (simp add: pty_exit_def st0_def)
  have l: "onData_listeners (ptys st0 a) = onData_listeners (ptys st a)" for a
    by (simp add: st0_def)
  show ?thesis
  proof (rule trackedI)
    fix p s assume "sessions st' p = Some s"
    then have "sessions st p = Some s"
      unfolding st' by (auto dest: fire_exit_sessions simp: st0_def)
    with assms(1) show "term_ref s < next_obj st'"
      by (simp add: st' fire_exit_next_obj st0_def tracked_lt)
  next
    fix p s h u
    assume a: "sessions st' p = Some s"
      and b: "(h, Buffer u) \<in> set (onData_listeners (ptys st' (term_ref s)))"
    from a have s: "sessions st p = Some s"
      unfolding st' by (auto dest: fire_exit_sessions simp: st0_def)
    from b have "(h, Buffer u) \<in> set (onData_listeners (ptys st (term_ref s)))"
      by (simp add: st' fire_exit_ptys l)
    from trackedD [OF assms(1) s this]
    show "temporaryDisposable s = Some (term_ref s, h)" .
  qed
next
  case False
  with assms show ?thesis by (simp add: pty_exit_def)
qed

lemma tracked_step:
  assumes "tracked st" and "step ser e st = Inr st'"
  shows "tracked st'"
proof (cases e)
  case (Create c r sp mk)
  with assms(2) obtain b where "post_terminals c r sp mk st = Inr (b, st')"
    by (auto simp: dropResponse_def split: sum.splits)
  with assms(1) show ?thesis by (rule tracked_post_terminals)
next
  case (Resize q c r out)
  with assms(2) obtain b where "post_size q c r out st = Inr (b, st')"
    by (auto simp: dropResponse_def split: sum.splits)
  with assms(1) show ?thesis by (rule tracked_post_size)
next
  case (Terminate q)
  with assms(2) obtain b where "post_terminate ser q st = Inr (b, st')"
    by (auto simp: dropResponse_def split: sum.splits)
  with assms(1) show ?thesis by (rule tracked_post_terminate)
next
  case (Connect q)
  with assms show ?thesis by (auto intro: tracked_ws_connection)
next
  case (Message w m)
  with assms show ?thesis by (auto intro: tracked_ws_message)
next
  case (Close w)
  with assms show ?thesis by (auto intro: tracked_ws_close)
next
  case (Data t d str)
  with assms show ?thesis by (auto intro: tracked_pty_data)
next
  case (Exit t)
  with assms show ?thesis by (auto intro: tracked_pty_exit)
qed

lemma tracked_run: "tracked st \<Longrightarrow> run ser es st = Inr st' \<Longrightarrow> tracked st'"
  by (induction es arbitrary: st) (auto split: sum.splits dest: tracked_step)

text \<open>Without a \<open>Buffer\<close> listener, a chunk changes no session and throws nothing.\<close>

lemma fire_data_no_buffer:
  "\<forall>e \<in> set ls. \<not> is_Buffer (snd e) \<Longrightarrow>
     \<exists>st'. fire_data d str ls st = Inr st' \<and> sessions st' = sessions st \<and> ptys st' = ptys st"
proof (induction d str ls st rule: fire_data.induct)
  case (1 d str st)
  then show ?case by simp
next
  case (2 d str h t ls st)
  then show ?case by (simp add: is_Buffer_def)
next
  case (3 d str h x w ls st)
  then show ?case
    by (cases "ws_open (socks st w)") (auto simp: xterm_write_def ws_send_def Let_def)
qed

lemma fire_data_next_ws: "fire_data d str ls st = Inr st' \<Longrightarrow> next_ws st' = next_ws st"
  by (induction d str ls st rule: fire_data.induct)
     (auto simp: upd_session_def xterm_write_def ws_send_def Let_def split: option.splits)

lemma fire_exit_next_ws: "next_ws (fire_exit ls st) = next_ws st"
  by (induction ls st rule: fire_exit.induct) auto

lemma fresh_init: "fresh init"
  by (simp add: fresh_def init_def)

lemma fresh_post_terminals:
  "fresh st \<Longrightarrow> post_terminals cols rows spawned made st = Inr (b, st') \<Longrightarrow> fresh st'"
  unfolding fresh_def post_terminals_def
  by (fastforce simp: prim_defs Let_def split: option.splits if_splits)

lemma fresh_post_size:
  "fresh st \<Longrightarrow> post_size pid_s cols rows out st = Inr (b, st') \<Longrightarrow> fresh st'"
  unfolding fresh_def post_size_def
  by (fastforce simp: prim_defs Let_def
        split: option.splits if_splits number.splits resize_outcome.splits)

lemma fresh_ws_connection:
  "fresh st \<Longrightarrow> ws_connection pid st = Inr st' \<Longrightarrow> fresh st'"
  unfolding fresh_def ws_connection_def
  by (fastforce simp: prim_defs Let_def less_Suc_eq
        split: option.splits if_splits number.splits)

lemma fresh_ws_message:
  "fresh st \<Longrightarrow> ws_message w msg st = Inr st' \<Longrightarrow> fresh st'"
  unfolding fresh_def ws_message_def
  by (fastforce simp: prim_defs Let_def split: option.splits if_splits)

lemma fresh_ws_close:
  "fresh st \<Longrightarrow> ws_close ser w st = Inr st' \<Longrightarrow> fresh st'"
  unfolding fresh_def ws_close_def
  by (fastforce simp: prim_defs Let_def split: option.splits if_splits)

lemma fresh_post_terminate:
  "fresh st \<Longrightarrow> post_terminate ser pid_s st = Inr (b, st') \<Longrightarrow> fresh st'"
  unfolding fresh_def post_terminate_def
  by (fastforce simp: prim_defs Let_def split: option.splits if_splits number.splits)

lemma fresh_pty_data:
  assumes "fresh st" and "pty_data t d str st = Inr st'"
  shows "fresh st'"
proof (cases "t < next_obj st \<and> \<not> exited (ptys st t)")
  case True
  with assms(2) have fd: "fire_data d str (onData_listeners (ptys st t)) st = Inr st'"
    by (simp add: pty_data_def)
  from fire_data_ptys [OF fd] fire_data_next_ws [OF fd] assms(1)
  show ?thesis by (simp add: fresh_def)
next
  case False
  with assms show ?thesis by (simp add: pty_data_def)
qed

lemma fresh_pty_exit:
  "fresh st \<Longrightarrow> pty_exit t st = Inr st' \<Longrightarrow> fresh st'"
  unfolding fresh_def pty_exit_def
  by (auto simp: fire_exit_ptys fire_exit_next_ws split: if_splits)

lemma fresh_step:
  assumes "fresh st" and "step ser e st = Inr st'"
  shows "fresh st'"
proof (cases e)
  case (Create c r sp mk)
  with assms(2) obtain b where "post_terminals c r sp mk st = Inr (b, st')"
    by (auto simp: dropResponse_def split: sum.splits)
  with assms(1) show ?thesis by (rule fresh_post_terminals)
next
  case (Resize q c r out)
  with assms(2) obtain b where "post_size q c r out st = Inr (b, st')"
    by (auto simp: dropResponse_def split: sum.splits)
  with assms(1) show ?thesis by (rule fresh_post_size)
next
  case (Terminate q)
  with assms(2) obtain b where "post_terminate ser q st = Inr (b, st')"
    by (auto simp: dropResponse_def split: sum.splits)
  with assms(1) show ?thesis by (rule fresh_post_terminate)
next
  case (Connect q)
  with assms show ?thesis by (auto intro: fresh_ws_connection)
next
  case (Message w m)
  with assms show ?thesis by (auto intro: fresh_ws_message)
next
  case (Close w)
  with assms show ?thesis by (auto intro: fresh_ws_close)
next
  case (Data t d str)
  with assms show ?thesis by (auto intro: fresh_pty_data)
next
  case (Exit t)
  with assms show ?thesis by (auto intro: fresh_pty_exit)
qed

lemma fresh_run: "fresh st \<Longrightarrow> run ser es st = Inr st' \<Longrightarrow> fresh st'"
  by (induction es arbitrary: st) (auto split: sum.splits dest: fresh_step)

lemma quiet_post_terminals:
  "quiet p a st \<Longrightarrow> post_terminals cols rows spawned made st = Inr (b, st') \<Longrightarrow> quiet p a st'"
  unfolding quiet_def post_terminals_def
  by (fastforce simp: prim_defs Let_def split: option.splits if_splits)

lemma quiet_post_size:
  "quiet p a st \<Longrightarrow> post_size pid_s cols rows out st = Inr (b, st') \<Longrightarrow> quiet p a st'"
  unfolding quiet_def post_size_def
  by (fastforce simp: prim_defs Let_def
        split: option.splits if_splits number.splits resize_outcome.splits)

lemma quiet_ws_connection:
  "quiet p a st \<Longrightarrow> ws_connection pid st = Inr st' \<Longrightarrow> quiet p a st'"
  unfolding quiet_def ws_connection_def
  by (fastforce simp: prim_defs Let_def split: option.splits if_splits number.splits)

lemma quiet_ws_message:
  "quiet p a st \<Longrightarrow> ws_message w msg st = Inr st' \<Longrightarrow> quiet p a st'"
  unfolding quiet_def ws_message_def
  by (fastforce simp: prim_defs Let_def split: option.splits if_splits)

lemma quiet_ws_close:
  "quiet p a st \<Longrightarrow> ws_close ser w st = Inr st' \<Longrightarrow> quiet p a st'"
  unfolding quiet_def ws_close_def
  by (fastforce simp: prim_defs Let_def split: option.splits if_splits)

lemma quiet_post_terminate:
  "quiet p a st \<Longrightarrow> post_terminate ser pid_s st = Inr (b, st') \<Longrightarrow> quiet p a st'"
  unfolding quiet_def post_terminate_def
  by (fastforce simp: prim_defs Let_def split: option.splits if_splits number.splits)

lemma quiet_pty_data:
  assumes "quiet p a st" and "pty_data t d str st = Inr st'"
  shows "quiet p a st'"
proof (cases "t < next_obj st \<and> \<not> exited (ptys st t)")
  case True
  with assms(2) have fd: "fire_data d str (onData_listeners (ptys st t)) st = Inr st'"
    by (simp add: pty_data_def)
  show ?thesis
    unfolding quiet_def
  proof (intro conjI allI impI)
    show "a < next_obj st'" using assms(1) fire_data_next_obj [OF fd] by (simp add: quiet_def)
  next
    fix s' assume a: "sessions st' p = Some s' \<and> term_ref s' = a"
    from fire_data_sessions [OF fd] a obtain s where
      "sessions st p = Some s" "term_ref s' = term_ref s"
      "temporaryDisposable s' = temporaryDisposable s" by blast
    with a assms(1) show "temporaryDisposable s' = None" by (simp add: quiet_def)
  qed
next
  case False
  with assms show ?thesis by (simp add: pty_data_def)
qed

lemma quiet_pty_exit:
  assumes "quiet p a st" and "pty_exit t st = Inr st'"
  shows "quiet p a st'"
proof (cases "t < next_obj st \<and> \<not> exited (ptys st t)")
  case True
  define st0 where "st0 = st\<lparr> ptys := (ptys st)(t := (ptys st t)\<lparr> exited := True \<rparr>) \<rparr>"
  from True assms(2) have st': "st' = fire_exit (onExit_listeners (ptys st t)) st0"
    by (simp add: pty_exit_def st0_def)
  show ?thesis
    unfolding quiet_def
  proof (intro conjI allI impI)
    show "a < next_obj st'" using assms(1)
      by (simp add: st' fire_exit_next_obj st0_def quiet_def)
  next
    fix s assume a: "sessions st' p = Some s \<and> term_ref s = a"
    then have "sessions st p = Some s"
      unfolding st' by (auto dest: fire_exit_sessions simp: st0_def)
    with a assms(1) show "temporaryDisposable s = None" by (simp add: quiet_def)
  qed
next
  case False
  with assms show ?thesis by (simp add: pty_exit_def)
qed

lemma quiet_step:
  assumes "quiet p a st" and "step ser e st = Inr st'"
  shows "quiet p a st'"
proof (cases e)
  case (Create c r sp mk)
  with assms(2) obtain b where "post_terminals c r sp mk st = Inr (b, st')"
    by (auto simp: dropResponse_def split: sum.splits)
  with assms(1) show ?thesis by (rule quiet_post_terminals)
next
  case (Resize q c r out)
  with assms(2) obtain b where "post_size q c r out st = Inr (b, st')"
    by (auto simp: dropResponse_def split: sum.splits)
  with assms(1) show ?thesis by (rule quiet_post_size)
next
  case (Terminate q)
  with assms(2) obtain b where "post_terminate ser q st = Inr (b, st')"
    by (auto simp: dropResponse_def split: sum.splits)
  with assms(1) show ?thesis by (rule quiet_post_terminate)
next
  case (Connect q)
  with assms show ?thesis by (auto intro: quiet_ws_connection)
next
  case (Message w m)
  with assms show ?thesis by (auto intro: quiet_ws_message)
next
  case (Close w)
  with assms show ?thesis by (auto intro: quiet_ws_close)
next
  case (Data t d str)
  with assms show ?thesis by (auto intro: quiet_pty_data)
next
  case (Exit t)
  with assms show ?thesis by (auto intro: quiet_pty_exit)
qed

lemma quiet_run: "quiet p a st \<Longrightarrow> run ser es st = Inr st' \<Longrightarrow> quiet p a st'"
  by (induction es arbitrary: st) (auto split: sum.splits dest: quiet_step)

subsection \<open>Buffering and forwarding\<close>

lemma chunk_effects_no_send:
  "\<forall>h x. (h, Forward x w) \<notin> set ls \<Longrightarrow> count_list (chunk_effects opn d ls) (WsSend w d) = 0"
  by (induction opn d ls rule: chunk_effects.induct) auto

text \<open>An attach that finds a non-empty buffer leaves no \<open>Buffer\<close> listener behind.\<close>

lemma connect_facts:
  assumes tr: "tracked st"
    and s: "sessions st p = Some s" and ne: "terminalData s \<noteq> []"
  shows "\<exists>st1 old. ws_connection (Num p) st = Inr st1
     \<and> sessions st1 p = Some (s\<lparr> temporaryDisposable := None,
                                  dataHandler := Some (term_ref s, next_hid st) \<rparr>)
     \<and> next_obj st1 = next_obj st
     \<and> exited (ptys st1 (term_ref s)) = exited (ptys st (term_ref s))
     \<and> onData_listeners (ptys st1 (term_ref s))
          = old @ [(next_hid st, Forward (xterm_ref s) (next_ws st))]
     \<and> set old \<subseteq> set (onData_listeners (ptys st (term_ref s)))
     \<and> (\<forall>e \<in> set old. \<not> is_Buffer (snd e))
     \<and> ws_open (socks st1 (next_ws st))
     \<and> received (socks st1 (next_ws st)) = [terminalData s]"
proof -
  have nb: "temporaryDisposable s = Some (term_ref s, h)"
    if "(h, Buffer t) \<in> set (onData_listeners (ptys st (term_ref s)))" for h t
    using trackedD [OF tr s that] .
  have nb': "e \<in> set (onData_listeners (ptys st (term_ref s))) \<Longrightarrow> is_Buffer (snd e) \<Longrightarrow>
      temporaryDisposable s = Some (term_ref s, fst e)" for e
    using nb [of "fst e"] by (cases e) (auto simp: is_Buffer_def split: listener.splits)
  show ?thesis
  proof (cases "temporaryDisposable s")
    case None
    with nb' have "\<forall>e \<in> set (onData_listeners (ptys st (term_ref s))). \<not> is_Buffer (snd e)"
      by auto
    with None s ne show ?thesis
      by (auto simp: ws_connection_def prim_defs Let_def)
  next
    case (Some d)
    show ?thesis
    proof (cases "fst d = term_ref s")
      case True
      have "\<forall>e \<in> set (filter (\<lambda>e. fst e \<noteq> snd d) (onData_listeners (ptys st (term_ref s)))).
              \<not> is_Buffer (snd e)"
        using nb' Some by auto
      with True Some s ne show ?thesis
        by (auto simp: ws_connection_def prim_defs Let_def)
    next
      case False
      have "\<forall>e \<in> set (onData_listeners (ptys st (term_ref s))). \<not> is_Buffer (snd e)"
        using nb' Some False by auto
      with False Some s ne show ?thesis
        by (auto simp: ws_connection_def prim_defs Let_def)
    qed
  qed
qed

text \<open>
  While nothing happens but output of the process, the listener registered last
  keeps receiving it.
\<close>

lemma data_only_run:
  assumes "a < next_obj st" and "\<not> exited (ptys st a)"
    and "onData_listeners (ptys st a) = old @ [(h, Forward x w)]"
    and "\<forall>e \<in> set old. \<not> is_Buffer (snd e)"
    and "\<forall>h' x'. (h', Forward x' w) \<notin> set old"
    and "ws_open (socks st w)"
  shows "\<exists>st'. run ser (map (\<lambda>c. Data a (fst c) (snd c)) cs) st = Inr st'
     \<and> sessions st' = sessions st
     \<and> received (socks st' w) = received (socks st w) @ map fst cs"
  using assms
proof (induction cs arbitrary: st)
  case Nil
  then show ?case by simp
next
  case (Cons c cs)
  let ?ls = "onData_listeners (ptys st a)"
  let ?opn = "\<lambda>v. ws_open (socks st v)"
  have nb: "\<forall>e \<in> set ?ls. \<not> is_Buffer (snd e)"
    using Cons.prems(3,4) by (simp add: is_Buffer_def)
  from fire_data_no_buffer [OF nb, of "fst c" "snd c" st] obtain st1 where
    fd: "fire_data (fst c) (snd c) ?ls st = Inr st1"
    and ss: "sessions st1 = sessions st" and pt: "ptys st1 = ptys st"
    by blast
  have no: "next_obj st1 = next_obj st" using fire_data_next_obj [OF fd] .
  have cnt: "count_list (chunk_effects ?opn (fst c) ?ls) (WsSend w (fst c)) = 1"
    using Cons.prems(3,6) chunk_effects_no_send [OF Cons.prems(5), of ?opn "fst c"]
    by (simp add: chunk_effects_append)
  from fire_data_exact [OF fd, of ?opn] cnt
  have op: "ws_open (socks st1 w)"
    and rc: "received (socks st1 w) = received (socks st w) @ [fst c]"
    using Cons.prems(6) by simp_all
  have st: "step ser (Data a (fst c) (snd c)) st = Inr st1"
    using Cons.prems(1,2) fd by (simp add: pty_data_def)
  from Cons.IH [of st1] Cons.prems pt no op obtain st' where
    "run ser (map (\<lambda>c. Data a (fst c) (snd c)) cs) st1 = Inr st'"
    "sessions st' = sessions st1"
    "received (socks st' w) = received (socks st1 w) @ map fst cs"
    by auto
  with st ss rc show ?case by simp
qed

text \<open>
  Claim C1, as the code has it. In a state the server can reach, an attach to a
  session whose \<open>terminalData\<close> is not empty leaves \<open>terminalData\<close> as it is
  (not empty, with a transport attached) and removes the buffering listener for
  good: in every later state in which the entry still names the same process, no
  buffering listener is registered on it and a chunk it emits leaves
  \<open>terminalData\<close> unchanged. If the process runs, a chunk it emits right after
  the attach is written to the xterm of the session and sent on the new socket,
  after the buffer; and the chunks of any burst of output that follows the attach
  are sent on the new socket in order, none being appended to \<open>terminalData\<close>.
\<close>

theorem attach_nonempty_stops_buffering:
  assumes "run ser es init = Inr st" and "sessions st p = Some s" and "terminalData s \<noteq> []"
  shows "\<exists>st1 s1. ws_connection (Num p) st = Inr st1
     \<and> sessions st1 p = Some s1 \<and> term_ref s1 = term_ref s
     \<and> terminalData s1 = terminalData s
     \<and> temporaryDisposable s1 = None
     \<and> \<not> buffering st1 p
     \<and> (\<forall>es' st2 s2. run ser es' st1 = Inr st2 \<and> sessions st2 p = Some s2
             \<and> term_ref s2 = term_ref s \<longrightarrow>
           temporaryDisposable s2 = None \<and> \<not> buffering st2 p
           \<and> (\<forall>d str. \<exists>st3 s3. pty_data (term_ref s) d str st2 = Inr st3
                 \<and> sessions st3 p = Some s3 \<and> terminalData s3 = terminalData s2))
     \<and> (\<not> exited (ptys st (term_ref s)) \<longrightarrow>
          (\<forall>d str. \<exists>st2 k. pty_data (term_ref s) d str st1 = Inr st2
             \<and> received (socks st2 (next_ws st)) = [terminalData s, d]
             \<and> xwritten (xterms st2 (xterm_ref s))
                 = xwritten (xterms st1 (xterm_ref s)) @ concat (replicate (Suc k) d))
          \<and> (\<forall>cs. \<exists>st2 s2.
               run ser (map (\<lambda>c. Data (term_ref s) (fst c) (snd c)) cs) st1 = Inr st2
             \<and> received (socks st2 (next_ws st)) = terminalData s # map fst cs
             \<and> sessions st2 p = Some s2 \<and> terminalData s2 = terminalData s))"
proof -
  let ?a = "term_ref s"
  let ?w = "next_ws st"
  have tr: "tracked st" using tracked_run [OF tracked_init assms(1)] .
  have fr: "fresh st" using fresh_run [OF fresh_init assms(1)] .
  from connect_facts [OF tr assms(2,3)] obtain st1 old where
    c: "ws_connection (Num p) st = Inr st1"
    and s1: "sessions st1 p = Some (s\<lparr> temporaryDisposable := None,
                                  dataHandler := Some (?a, next_hid st) \<rparr>)"
    and no: "next_obj st1 = next_obj st"
    and ex: "exited (ptys st1 ?a) = exited (ptys st ?a)"
    and ls: "onData_listeners (ptys st1 ?a) = old @ [(next_hid st, Forward (xterm_ref s) ?w)]"
    and sub: "set old \<subseteq> set (onData_listeners (ptys st ?a))"
    and nb: "\<forall>e \<in> set old. \<not> is_Buffer (snd e)"
    and op: "ws_open (socks st1 ?w)"
    and rc: "received (socks st1 ?w) = [terminalData s]"
    by blast
  have tr1: "tracked st1" using tracked_ws_connection [OF tr c] .
  have lt: "?a < next_obj st1" using tracked_lt [OF tr assms(2)] no by simp
  have q1: "quiet p ?a st1" using lt s1 by (simp add: quiet_def)
  have nb1: "\<forall>e \<in> set (onData_listeners (ptys st1 ?a)). \<not> is_Buffer (snd e)"
    using nb ls by (simp add: is_Buffer_def)
  have now: "\<not> buffering st1 p"
    using s1 nb1 by (auto simp: buffering_def list_ex_iff)
  have later: "temporaryDisposable s2 = None \<and> \<not> buffering st2 p
           \<and> (\<forall>d str. \<exists>st3 s3. pty_data ?a d str st2 = Inr st3
                 \<and> sessions st3 p = Some s3 \<and> terminalData s3 = terminalData s2)"
    if r: "run ser es' st1 = Inr st2" and s2: "sessions st2 p = Some s2"
      and a2: "term_ref s2 = ?a" for es' st2 s2
  proof -
    have tr2: "tracked st2" using tracked_run [OF tr1 r] .
    have q2: "quiet p ?a st2" using quiet_run [OF q1 r] .
    from q2 s2 a2 have t2: "temporaryDisposable s2 = None" by (simp add: quiet_def)
    have nb2: "\<forall>e \<in> set (onData_listeners (ptys st2 ?a)). \<not> is_Buffer (snd e)"
    proof
      fix e assume e: "e \<in> set (onData_listeners (ptys st2 ?a))"
      show "\<not> is_Buffer (snd e)"
      proof
        assume "is_Buffer (snd e)"
        then obtain h t where "e = (h, Buffer t)"
          by (cases e) (auto simp: is_Buffer_def split: listener.splits)
        with e a2 have "(h, Buffer t) \<in> set (onData_listeners (ptys st2 (term_ref s2)))" by simp
        from trackedD [OF tr2 s2 this] t2 show False by simp
      qed
    qed
    have b2: "\<not> buffering st2 p"
      using s2 a2 nb2 by (auto simp: buffering_def list_ex_iff)
    have "\<exists>st3 s3. pty_data ?a d str st2 = Inr st3
                 \<and> sessions st3 p = Some s3 \<and> terminalData s3 = terminalData s2" for d str
    proof (cases "?a < next_obj st2 \<and> \<not> exited (ptys st2 ?a)")
      case True
      from fire_data_no_buffer [OF nb2, of d str st2] obtain st3 where
        "fire_data d str (onData_listeners (ptys st2 ?a)) st2 = Inr st3"
        "sessions st3 = sessions st2" by blast
      with True s2 show ?thesis by (auto simp: pty_data_def)
    next
      case False
      with s2 show ?thesis by (auto simp: pty_data_def)
    qed
    with t2 b2 show ?thesis by blast
  qed
  have fwd: "\<exists>st2 k. pty_data ?a d str st1 = Inr st2
             \<and> received (socks st2 ?w) = [terminalData s, d]
             \<and> xwritten (xterms st2 (xterm_ref s))
                 = xwritten (xterms st1 (xterm_ref s)) @ concat (replicate (Suc k) d)"
    if run: "\<not> exited (ptys st ?a)" for d str
  proof -
    let ?ls = "onData_listeners (ptys st1 ?a)"
    let ?opn = "\<lambda>w. ws_open (socks st1 w)"
    from fire_data_no_buffer [OF nb1, of d str st1] obtain st2 where
      fd: "fire_data d str ?ls st1 = Inr st2" by blast
    from run ex lt fd have pd: "pty_data ?a d str st1 = Inr st2"
      by (simp add: pty_data_def)
    have none: "\<forall>h x. (h, Forward x ?w) \<notin> set old"
    proof (intro allI notI)
      fix h x assume "(h, Forward x ?w) \<in> set old"
      with sub have "(h, Forward x ?w) \<in> set (onData_listeners (ptys st ?a))" by blast
      with fr have "?w < next_ws st" unfolding fresh_def by blast
      then show False by simp
    qed
    have cs: "count_list (chunk_effects ?opn d ?ls) (WsSend ?w d) = 1"
      using op chunk_effects_no_send [OF none, of ?opn d]
      by (simp add: ls chunk_effects_append)
    have cx: "count_list (chunk_effects ?opn d ?ls) (XWrite (xterm_ref s) d)
          = Suc (count_list (chunk_effects ?opn d old) (XWrite (xterm_ref s) d))"
      using op by (simp add: ls chunk_effects_append)
    from fire_data_exact [OF fd, of ?opn] cs cx rc
    have "received (socks st2 ?w) = [terminalData s, d]"
      "xwritten (xterms st2 (xterm_ref s)) = xwritten (xterms st1 (xterm_ref s))
         @ concat (replicate (Suc (count_list (chunk_effects ?opn d old)
                                     (XWrite (xterm_ref s) d))) d)"
      by simp_all
    with pd show ?thesis by blast
  qed
  have burst: "\<exists>st2 s2.
               run ser (map (\<lambda>c. Data ?a (fst c) (snd c)) cs) st1 = Inr st2
             \<and> received (socks st2 ?w) = terminalData s # map fst cs
             \<and> sessions st2 p = Some s2 \<and> terminalData s2 = terminalData s"
    if run: "\<not> exited (ptys st ?a)" for cs
  proof -
    have none: "\<forall>h x. (h, Forward x ?w) \<notin> set old"
    proof (intro allI notI)
      fix h x assume "(h, Forward x ?w) \<in> set old"
      with sub have "(h, Forward x ?w) \<in> set (onData_listeners (ptys st ?a))" by blast
      with fr have "?w < next_ws st" unfolding fresh_def by blast
      then show False by simp
    qed
    from run ex have r1: "\<not> exited (ptys st1 ?a)" by simp
    from data_only_run [OF lt r1 ls nb none op, of ser cs] rc s1
    show ?thesis by auto
  qed
  from c s1 now later fwd burst show ?thesis by simp blast
qed

text \<open>
  At the session that buffered \<^verbatim>\<open>hi\<close>: after the attach, the chunks \<^verbatim>\<open>x\<close> and
  \<^verbatim>\<open>y\<close> are sent on the socket and the buffer stays \<^verbatim>\<open>hi\<close>.
\<close>

theorem attach_nonempty_stops_buffering_witness:
  "run sample_serialize tr_unattached init = Inr st_unattached
   \<and> sessions st_unattached 7 =
        Some \<lparr> term_ref = 0, xterm_ref = 0, terminalData = ''hi'',
               temporaryDisposable = Some (0, 0), dataHandler = None \<rparr>
   \<and> (\<exists>st1 st2 s2 st3 s3. ws_connection (Num 7) st_unattached = Inr st1
        \<and> \<not> buffering st1 7
        \<and> pty_data 0 ''x'' ''x'' st1 = Inr st2
        \<and> sessions st2 7 = Some s2 \<and> terminalData s2 = ''hi''
        \<and> received (socks st2 0) = [''hi'', ''x'']
        \<and> run sample_serialize [Data 0 ''x'' ''x'', Data 0 ''y'' ''y''] st1 = Inr st3
        \<and> sessions st3 7 = Some s3 \<and> terminalData s3 = ''hi''
        \<and> received (socks st3 0) = [''hi'', ''x'', ''y''])"
proof -
  let ?s = "\<lparr> term_ref = 0, xterm_ref = 0, terminalData = ''hi'',
               temporaryDisposable = Some (0, 0), dataHandler = None \<rparr>"
  have r: "run sample_serialize tr_unattached init = Inr st_unattached"
    by (simp add: eval_defs)
  have h: "sessions st_unattached 7 = Some ?s"
    by (simp add: eval_defs)
  have n: "terminalData ?s \<noteq> []" by simp
  have e: "\<not> exited (ptys st_unattached (term_ref ?s))" "next_ws st_unattached = 0"
    by (simp_all add: eval_defs)
  from attach_nonempty_stops_buffering [OF r h n] obtain st1 s1 where
    c: "ws_connection (Num 7) st_unattached = Inr st1"
    and s1: "sessions st1 7 = Some s1" "term_ref s1 = term_ref ?s"
      "terminalData s1 = terminalData ?s"
    and nb: "\<not> buffering st1 7"
    and later: "\<forall>es' st2 s2. run sample_serialize es' st1 = Inr st2 \<and> sessions st2 7 = Some s2
             \<and> term_ref s2 = term_ref ?s \<longrightarrow>
           temporaryDisposable s2 = None \<and> \<not> buffering st2 7
           \<and> (\<forall>d str. \<exists>st3 s3. pty_data (term_ref ?s) d str st2 = Inr st3
                 \<and> sessions st3 7 = Some s3 \<and> terminalData s3 = terminalData s2)"
    and fwd: "\<not> exited (ptys st_unattached (term_ref ?s)) \<longrightarrow>
          (\<forall>d str. \<exists>st2 k. pty_data (term_ref ?s) d str st1 = Inr st2
             \<and> received (socks st2 (next_ws st_unattached)) = [terminalData ?s, d]
             \<and> xwritten (xterms st2 (xterm_ref ?s))
                 = xwritten (xterms st1 (xterm_ref ?s)) @ concat (replicate (Suc k) d))
          \<and> (\<forall>cs. \<exists>st2 s2.
               run sample_serialize (map (\<lambda>c. Data (term_ref ?s) (fst c) (snd c)) cs) st1
                 = Inr st2
             \<and> received (socks st2 (next_ws st_unattached)) = terminalData ?s # map fst cs
             \<and> sessions st2 7 = Some s2 \<and> terminalData s2 = terminalData ?s)"
    by blast
  from later [rule_format, of "[]" st1 s1] s1 obtain st3 s3 where
    a: "pty_data 0 ''x'' ''x'' st1 = Inr st3" "sessions st3 7 = Some s3" "terminalData s3 = ''hi''"
    by fastforce
  from fwd e obtain st2 where
    b: "pty_data 0 ''x'' ''x'' st1 = Inr st2" "received (socks st2 0) = [''hi'', ''x'']"
    by fastforce
  from fwd e have f2: "\<forall>cs. \<exists>st2 s2.
               run sample_serialize (map (\<lambda>c. Data (term_ref ?s) (fst c) (snd c)) cs) st1
                 = Inr st2
             \<and> received (socks st2 (next_ws st_unattached)) = terminalData ?s # map fst cs
             \<and> sessions st2 7 = Some s2 \<and> terminalData s2 = terminalData ?s"
    by blast
  from f2 [rule_format, of "[(''x'', ''x''), (''y'', ''y'')]"] e obtain st4 s4 where
    d: "run sample_serialize [Data 0 ''x'' ''x'', Data 0 ''y'' ''y''] st1 = Inr st4"
      "received (socks st4 0) = [''hi'', ''x'', ''y'']"
      "sessions st4 7 = Some s4" "terminalData s4 = ''hi''"
    by (auto simp del: run.simps)
  from a b have "st3 = st2" by simp
  with r h c nb a b d show ?thesis by blast
qed

text \<open>
  Against claim C1 as stated: an attach that finds the buffer empty does not
  dispose of the buffering listener (line 120 tests \<^verbatim>\<open>terminalData\<close> too), so the
  chunk \<^verbatim>\<open>x\<close> that follows is both sent on the socket and appended to the
  buffer. And after an attach that found \<^verbatim>\<open>hi\<close> buffered, the buffer still
  holds \<^verbatim>\<open>hi\<close> while the transport is attached.
\<close>

theorem buffer_and_forward_overlap:
  "buffering (state_after sample_serialize tr_attached_early) 7
   \<and> onData_listeners (ptys (state_after sample_serialize tr_attached_early) 0)
        = [(0, Buffer 0), (1, Forward 0 0)]
   \<and> received (socks (state_after sample_serialize tr_attached_early) 0) = [[], ''x'']
   \<and> map_option terminalData (sessions (state_after sample_serialize tr_attached_early) 7)
        = Some ''x''
   \<and> onData_listeners (ptys st_attached 0) = [(1, Forward 0 0)]
   \<and> ws_open (socks st_attached 0)
   \<and> map_option terminalData (sessions st_attached 7) = Some ''hi''"
  by (simp add: eval_defs buffering_def is_Buffer_def)

subsection \<open>Detaching\<close>

text \<open>
  Claim C7. When an attached transport closes, its subscription should be torn
  down and the buffer set to the serialized current state of the xterm. The
  session records one subscription only, the one of the last attach (line 128),
  and the close handler disposes of whatever is recorded (lines 150-151). After
  output \<^verbatim>\<open>hi\<close> and two attaches, the close of the first socket removes the
  listener of the second socket and leaves its own registered; the second socket,
  still open, is not sent the chunk \<^verbatim>\<open>y\<close> that follows; and when the second
  socket closes, the handler finds no \<open>dataHandler\<close> and does nothing: the
  listener of the first socket stays registered and the buffer keeps the state
  serialized at the first close, of the stream \<^verbatim>\<open>hi\<close>, while the xterm has been
  written \<^verbatim>\<open>hiy\<close>. The process is not killed and has not exited.
\<close>

theorem detach_after_second_attach_tears_down_wrong_subscription:
  "onData_listeners (ptys (state_after ser tr_attached_again) 0)
        = [(1, Forward 0 0), (2, Forward 0 1)]
   \<and> onData_listeners (ptys (state_after ser tr_first_closed) 0) = [(1, Forward 0 0)]
   \<and> \<not> ws_open (socks (state_after ser tr_first_closed) 0)
   \<and> ws_open (socks (state_after ser tr_first_closed) 1)
   \<and> received (socks (state_after ser (tr_first_closed @ [Data 0 ''y'' ''y''])) 1) = [''hi'']
   \<and> xterms (state_after ser tr_both_closed) 0
        = \<lparr> xterm_cols_arg = Num 80, xterm_rows_arg = Num 24, xwritten = ''hiy'',
            xdisposed = 0, addon_disposed = 0 \<rparr>
   \<and> map_option terminalData (sessions (state_after ser tr_both_closed) 7)
        = Some (ser \<lparr> xterm_cols_arg = Num 80, xterm_rows_arg = Num 24, xwritten = ''hi'',
                      xdisposed = 0, addon_disposed = 0 \<rparr>)
   \<and> \<not> ws_open (socks (state_after ser tr_both_closed) 1)
   \<and> onData_listeners (ptys (state_after ser tr_both_closed) 0) = [(1, Forward 0 0)]
   \<and> \<not> exited (ptys (state_after ser tr_both_closed) 0)
   \<and> effects (state_after ser tr_both_closed)
        = [XWrite 0 ''hi'', WsSend 0 ''hi'', WsSend 1 ''hi'', XWrite 0 ''y'']"
  by (simp add: eval_defs)

subsection \<open>Terminating\<close>

text \<open>
  Claim C4, as the code has it. For a session whose process runs and has no exit
  listener yet, a terminate request kills the process once; when the process then
  exits, the xterm is disposed of once and the session is removed once; a second
  terminate request after that finds no session and changes nothing.
\<close>

theorem terminate_after_exit_is_noop:
  assumes "parseInt pid_s = Num p" and "sessions st p = Some s"
    and "term_ref s < next_obj st" and "\<not> exited (ptys st (term_ref s))"
    and "onExit_listeners (ptys st (term_ref s)) = []"
  shows "\<exists>st1 st2. post_terminate ser pid_s st = Inr ([], st1)
     \<and> pty_exit (term_ref s) st1 = Inr st2
     \<and> post_terminate ser pid_s st2 = Inr ([], st2)
     \<and> sessions st2 p = None
     \<and> xdisposed (xterms st2 (xterm_ref s)) = Suc (xdisposed (xterms st (xterm_ref s)))
     \<and> effects st2 = effects st
          @ (if dataHandler s = None \<or> terminalData s = [] then []
             else [AddonDispose (xterm_ref s)])
          @ [Kill (term_ref s), XDispose (xterm_ref s), Closed p]"
  using assms
  by (auto simp add: post_terminate_def pty_exit_def prim_defs Let_def split: option.splits)

text \<open>At the session just created, named by the path parameter \<^verbatim>\<open>7\<close>.\<close>

theorem terminate_after_exit_is_noop_witness:
  "parseInt ''7'' = Num 7
   \<and> sessions st_created 7 =
        Some \<lparr> term_ref = 0, xterm_ref = 0, terminalData = [],
               temporaryDisposable = Some (0, 0), dataHandler = None \<rparr>
   \<and> 0 < next_obj st_created \<and> \<not> exited (ptys st_created 0)
   \<and> onExit_listeners (ptys st_created 0) = []
   \<and> (\<exists>st1 st2. post_terminate sample_serialize ''7'' st_created = Inr ([], st1)
     \<and> pty_exit 0 st1 = Inr st2
     \<and> post_terminate sample_serialize ''7'' st2 = Inr ([], st2)
     \<and> sessions st2 7 = None
     \<and> xdisposed (xterms st2 0) = 1
     \<and> effects st2 = [Kill 0, XDispose 0, Closed 7])"
proof -
  have a: "parseInt ''7'' = Num 7"
    by (simp add: parse_defs)
  have h: "sessions st_created 7 =
        Some \<lparr> term_ref = 0, xterm_ref = 0, terminalData = [],
               temporaryDisposable = Some (0, 0), dataHandler = None \<rparr>"
    by (simp add: eval_defs)
  have k: "term_ref \<lparr> term_ref = 0, xterm_ref = 0, terminalData = [],
               temporaryDisposable = Some (0, 0), dataHandler = None \<rparr> < next_obj st_created"
    "\<not> exited (ptys st_created (term_ref \<lparr> term_ref = 0, xterm_ref = 0, terminalData = [],
               temporaryDisposable = Some (0, 0), dataHandler = None \<rparr>))"
    "onExit_listeners (ptys st_created (term_ref \<lparr> term_ref = 0, xterm_ref = 0,
               terminalData = [], temporaryDisposable = Some (0, 0), dataHandler = None \<rparr>)) = []"
    by (simp_all add: eval_defs)
  have e: "effects st_created = []" "xdisposed (xterms st_created 0) = 0"
    by (simp_all add: eval_defs)
  from terminate_after_exit_is_noop [OF a h k, of sample_serialize] a h k e
  show ?thesis by simp
qed

text \<open>
  Against claim C4 as stated: a second terminate request that arrives before the
  process has exited kills the process again and registers a second exit
  listener, so the exit disposes of the xterm twice and removes the session twice.
\<close>

theorem terminate_twice_tears_down_twice:
  "effects (state_after sample_serialize tr_terminated_twice) = [Kill 0, Kill 0]
   \<and> effects (state_after sample_serialize (tr_terminated_twice @ [Exit 0]))
        = [Kill 0, Kill 0, XDispose 0, Closed 7, XDispose 0, Closed 7]
   \<and> xdisposed (xterms (state_after sample_serialize (tr_terminated_twice @ [Exit 0])) 0) = 2"
  by (simp add: eval_defs)

text \<open>An exit with no exit listener registered changes nothing but the process's flag.\<close>

lemma pty_exit_no_listener:
  "onExit_listeners (ptys st t) = [] \<Longrightarrow>
     pty_exit t st = Inr st \<or>
     pty_exit t st = Inr (st\<lparr> ptys := (ptys st)(t := (ptys st t)\<lparr> exited := True \<rparr>) \<rparr>)"
  by (simp add: pty_exit_def)

text \<open>
  Claim C9. A process that exits without a terminate request should be torn down
  like one that was terminated. The exit listener is registered by the terminate
  handler only (lines 182-187), so when the process of a new session exits on
  its own, nothing runs: the session stays in the table and the xterm is not
  disposed of.
\<close>

theorem spontaneous_exit_leaves_session:
  "sessions (state_after ser tr_exited) 7 =
     Some \<lparr> term_ref = 0, xterm_ref = 0, terminalData = [],
            temporaryDisposable = Some (0, 0), dataHandler = None \<rparr>
   \<and> exited (ptys (state_after ser tr_exited) 0)
   \<and> xdisposed (xterms (state_after ser tr_exited) 0) = 0
   \<and> effects (state_after ser tr_exited) = []"
  by (simp add: eval_defs)

end
